theory Spec2Isabelle
  imports Complex_Main "HOL-Library.Word" "HOL-Library.AList"
begin

section \<open>The live-session message handler\<close>

text \<open>
  The component \<open>GdmLiveAudio\<close> exists in four revisions: \<open>index.tsx\<close> holds two of
  them, \<open>part_001\<close> the other two. Their message handlers agree on the audio and the
  interruption branch and differ in the transcript branch only: the revisions without
  per-fragment finality (the first of \<open>index.tsx\<close>, the second of \<open>part_001\<close>) merge
  by the speaker of the last line, the revisions with an \<open>isFinal\<close> flag (the first
  of \<open>part_001\<close>, the second of \<open>index.tsx\<close>) also start a new line after a final one.

  A handler is modelled as a function on the fields it reads and writes. An awaited call
  runs to completion inside the handler: the interleaving of two handlers at an
  \<open>await\<close> is not modelled.
\<close>

subsection \<open>Data\<close>

text \<open>The two values the field \<open>speaker\<close> ever takes.\<close>

datatype speaker = Candidate | Examiner

record line =
  speaker :: speaker
  text' :: string

text \<open>The element type of \<open>transcripts\<close> in the revisions that track finality.\<close>

record fline = line +
  isFinal :: bool

text \<open>
  \<open>Transcription\<close> of the remote service: an optional text and the status that the
  finality revisions read through \<open>(t as any).status\<close>.
\<close>

record transcription =
  t_text :: "string option"
  t_status :: "string option"

text \<open>
  What \<open>message.serverContent?.modelTurn?.parts[0]?.inlineData\<close> and the decoding make of
  a message: no inline data (\<open>None\<close>); inline data that
  \<open>decodeAudioData(decode(audio.data), ...)\<close> turns into a buffer of a duration; inline
  data on which the decoding throws; a model turn without \<open>parts\<close>, on which the
  reading of \<open>parts[0]\<close> itself throws.
\<close>

datatype inline_audio = Pcm real | Undecodable | NoParts

record message =
  audio :: "inline_audio option"
  inputTranscription :: "transcription option"
  outputTranscription :: "transcription option"
  interrupted :: bool

type_synonym source = nat

text \<open>
  The fields of the component that \<open>onmessage\<close> touches. \<open>sources\<close> is the JavaScript
  \<open>Set\<close> in insertion order; \<open>fresh\<close> numbers the objects that
  \<open>createBufferSource\<close> returns; \<open>started\<close> and \<open>stopped\<close> record the calls
  \<open>source.start(t)\<close> and \<open>source.stop()\<close> in order.
\<close>

record 'l player =
  transcripts :: "'l list"
  nextStartTime :: real
  sources :: "source list"
  fresh :: source
  started :: "(source \<times> real) list"
  stopped :: "source list"

subsection \<open>Audio scheduling\<close>

text \<open>\<open>this.sources.add(source)\<close> and \<open>this.sources.delete(source)\<close>.\<close>

definition set_add :: "source \<Rightarrow> source list \<Rightarrow> source list" where
  "set_add x xs = (if x \<in> set xs then xs else xs @ [x])"

definition set_delete :: "source \<Rightarrow> source list \<Rightarrow> source list" where
  "set_delete x xs = removeAll x xs"

text \<open>
  The reading of the inline data and the branch \<open>if (audio)\<close>, with
  \<open>now = outputAudioContext.currentTime\<close>. The assignment of the maximum comes before
  the decoding, so it stays when decoding throws; a throw of the reading comes before
  everything. In both cases the handler ends with the exception (the flag \<open>False\<close>) and
  the rest of the message is not looked at.
\<close>

definition schedule_buffer ::
  "real \<Rightarrow> real \<Rightarrow> ('l, 'm) player_scheme \<Rightarrow> ('l, 'm) player_scheme" where
  "schedule_buffer now d s =
     (let startAt = max (nextStartTime s) now;
          src = fresh s
      in s\<lparr>nextStartTime := startAt + d,
           fresh := Suc src,
           started := started s @ [(src, startAt)],
           sources := set_add src (sources s)\<rparr>)"

definition on_audio ::
  "real \<Rightarrow> inline_audio option \<Rightarrow> ('l, 'm) player_scheme
     \<Rightarrow> ('l, 'm) player_scheme \<times> bool" where
  "on_audio now a s =
     (case a of
        None \<Rightarrow> (s, True)
      | Some NoParts \<Rightarrow> (s, False)
      | Some Undecodable \<Rightarrow> (s\<lparr>nextStartTime := max (nextStartTime s) now\<rparr>, False)
      | Some (Pcm d) \<Rightarrow> (schedule_buffer now d s, True))"

text \<open>The listener of \<open>ended\<close> that every scheduled source carries.\<close>

definition on_ended :: "source \<Rightarrow> ('l, 'm) player_scheme \<Rightarrow> ('l, 'm) player_scheme" where
  "on_ended src s = s\<lparr>sources := set_delete src (sources s)\<rparr>"

subsection \<open>Interruption\<close>

text \<open>
  \<open>for (const source of this.sources.values()) { source.stop(); this.sources.delete(source); }\<close>:
  the iterator of a \<open>Set\<close> visits every member in insertion order, also when the member
  just visited is deleted.
\<close>

fun stop_each :: "source list \<Rightarrow> ('l, 'm) player_scheme \<Rightarrow> ('l, 'm) player_scheme" where
  "stop_each [] s = s"
| "stop_each (x # xs) s =
     stop_each xs (s\<lparr>stopped := stopped s @ [x], sources := set_delete x (sources s)\<rparr>)"

definition on_interrupted :: "bool \<Rightarrow> ('l, 'm) player_scheme \<Rightarrow> ('l, 'm) player_scheme" where
  "on_interrupted flag s =
     (if flag then (stop_each (sources s) s)\<lparr>nextStartTime := 0\<rparr> else s)"

subsection \<open>Transcript reconciliation\<close>

text \<open>JavaScript truthiness of an optional string: \<open>undefined\<close> and \<open>''\<close> are falsy.\<close>

definition truthy :: "string option \<Rightarrow> bool" where
  "truthy x = (case x of None \<Rightarrow> False | Some t \<Rightarrow> t \<noteq> [])"

text \<open>\<open>this.transcripts[this.transcripts.length - 1]\<close>, \<open>undefined\<close> on the empty array.\<close>

definition lastTranscript :: "'a list \<Rightarrow> 'a option" where
  "lastTranscript ls = (if ls = [] then None else Some (last ls))"

text \<open>
  The body of \<open>if (inputTranscription?.text)\<close> (with \<open>Candidate\<close>) and of
  \<open>if (outputTranscription?.text)\<close> (with \<open>Examiner\<close>) in the revisions without
  finality: the two bodies differ in the speaker only.
\<close>

definition add_fragment :: "speaker \<Rightarrow> string \<Rightarrow> line list \<Rightarrow> line list" where
  "add_fragment sp t ls =
     (case lastTranscript ls of
        Some l \<Rightarrow>
          if speaker l = sp then butlast ls @ [l\<lparr>text' := text' l @ t\<rparr>]
          else ls @ [\<lparr>speaker = sp, text' = t\<rparr>]
      | None \<Rightarrow> ls @ [\<lparr>speaker = sp, text' = t\<rparr>])"

definition on_transcription ::
  "speaker \<Rightarrow> transcription option \<Rightarrow> line list \<Rightarrow> line list" where
  "on_transcription sp tr ls =
     (case tr of
        None \<Rightarrow> ls
      | Some t \<Rightarrow> if truthy (t_text t) then add_fragment sp (the (t_text t)) ls else ls)"

text \<open>
  The same two bodies in the first revision of \<open>part_001\<close>: the last line takes the
  fragment when it has the speaker and is not final, and its flag becomes
  \<open>status === 'FINAL'\<close> of the fragment.
\<close>

definition add_fragment_final :: "speaker \<Rightarrow> string \<Rightarrow> bool \<Rightarrow> fline list \<Rightarrow> fline list" where
  "add_fragment_final sp t fin ls =
     (case lastTranscript ls of
        Some l \<Rightarrow>
          if speaker l = sp \<and> \<not> isFinal l
          then butlast ls @ [l\<lparr>text' := text' l @ t, isFinal := fin\<rparr>]
          else ls @ [\<lparr>speaker = sp, text' = t, isFinal = fin\<rparr>]
      | None \<Rightarrow> ls @ [\<lparr>speaker = sp, text' = t, isFinal = fin\<rparr>])"

definition is_final :: "transcription \<Rightarrow> bool" where
  "is_final t = (t_status t = Some ''FINAL'')"

definition on_transcription_final ::
  "speaker \<Rightarrow> transcription option \<Rightarrow> fline list \<Rightarrow> fline list" where
  "on_transcription_final sp tr ls =
     (case tr of
        None \<Rightarrow> ls
      | Some t \<Rightarrow>
          if truthy (t_text t) then add_fragment_final sp (the (t_text t)) (is_final t) ls
          else ls)"

subsection \<open>The handler\<close>

text \<open>
  \<open>onmessage\<close> of the revisions without finality (\<open>index.tsx\<close> 503-577,
  \<open>part_001\<close> 1429-1499): audio, then the input fragment, then the output fragment,
  then the interruption flag.
\<close>

definition onmessage ::
  "real \<Rightarrow> message \<Rightarrow> (line, 'm) player_scheme \<Rightarrow> (line, 'm) player_scheme" where
  "onmessage now m s =
     (case on_audio now (audio m) s of
        (s1, False) \<Rightarrow> s1
      | (s1, True) \<Rightarrow>
          on_interrupted (interrupted m)
            (s1\<lparr>transcripts :=
                  on_transcription Examiner (outputTranscription m)
                    (on_transcription Candidate (inputTranscription m) (transcripts s1))\<rparr>))"

text \<open>\<open>onmessage\<close> of the first revision of \<open>part_001\<close> (151-235).\<close>

definition onmessage_final ::
  "real \<Rightarrow> message \<Rightarrow> (fline, 'm) player_scheme \<Rightarrow> (fline, 'm) player_scheme" where
  "onmessage_final now m s =
     (case on_audio now (audio m) s of
        (s1, False) \<Rightarrow> s1
      | (s1, True) \<Rightarrow>
          on_interrupted (interrupted m)
            (s1\<lparr>transcripts :=
                  on_transcription_final Examiner (outputTranscription m)
                    (on_transcription_final Candidate (inputTranscription m) (transcripts s1))\<rparr>))"

text \<open>
  The transcript branch of the second revision of \<open>index.tsx\<close> (1286-1344): the same
  choice between the last line and a new one; a final fragment sets the flag and calls
  \<open>saveTranscript(speaker, text)\<close>, recorded in the second component.
\<close>

definition add_fragment_saving ::
  "speaker \<Rightarrow> string \<Rightarrow> bool \<Rightarrow> fline list \<times> (speaker \<times> string) list
     \<Rightarrow> fline list \<times> (speaker \<times> string) list" where
  "add_fragment_saving sp t fin st =
     (let ls = fst st; saves = snd st;
          fresh_line = (ls @ [\<lparr>speaker = sp, text' = t, isFinal = fin\<rparr>],
                        if fin then saves @ [(sp, t)] else saves)
      in case lastTranscript ls of
           Some l \<Rightarrow>
             if speaker l = sp \<and> \<not> isFinal l
             then (let l1 = l\<lparr>text' := text' l @ t\<rparr>
                   in if fin then (butlast ls @ [l1\<lparr>isFinal := True\<rparr>], saves @ [(sp, text' l1)])
                      else (butlast ls @ [l1], saves))
             else fresh_line
         | None \<Rightarrow> fresh_line)"

definition on_transcription_saving ::
  "speaker \<Rightarrow> transcription option \<Rightarrow> fline list \<times> (speaker \<times> string) list
     \<Rightarrow> fline list \<times> (speaker \<times> string) list" where
  "on_transcription_saving sp tr st =
     (case tr of
        None \<Rightarrow> st
      | Some t \<Rightarrow>
          if truthy (t_text t) then add_fragment_saving sp (the (t_text t)) (is_final t) st
          else st)"

text \<open>
  \<open>onmessage\<close> of the second revision of \<open>index.tsx\<close> (1258-1351), on the fields of the
  player and the calls of \<open>saveTranscript\<close> made so far.
\<close>

definition onmessage_saving ::
  "real \<Rightarrow> message \<Rightarrow> (fline, 'm) player_scheme \<times> (speaker \<times> string) list
     \<Rightarrow> (fline, 'm) player_scheme \<times> (speaker \<times> string) list" where
  "onmessage_saving now m st =
     (case on_audio now (audio m) (fst st) of
        (s1, False) \<Rightarrow> (s1, snd st)
      | (s1, True) \<Rightarrow>
          (let r = on_transcription_saving Examiner (outputTranscription m)
                     (on_transcription_saving Candidate (inputTranscription m)
                        (transcripts s1, snd st))
           in (on_interrupted (interrupted m) (s1\<lparr>transcripts := fst r\<rparr>), snd r)))"

subsection \<open>Sequences of messages, fragments and buffers\<close>

text \<open>
  The fragment a transcription carries for the handler: the guard
  \<open>if (inputTranscription?.text)\<close> lets a fragment through when its text is truthy.
\<close>

definition fragment_of :: "speaker \<Rightarrow> transcription option \<Rightarrow> (speaker \<times> string) list" where
  "fragment_of sp tr =
     (case tr of
        None \<Rightarrow> []
      | Some t \<Rightarrow> if truthy (t_text t) then [(sp, the (t_text t))] else [])"

definition fragments_of :: "message \<Rightarrow> (speaker \<times> string) list" where
  "fragments_of m =
     fragment_of Candidate (inputTranscription m) @ fragment_of Examiner (outputTranscription m)"

text \<open>The audio of the message does not throw: the handler gets to its later branches.\<close>

definition decodable :: "message \<Rightarrow> bool" where
  "decodable m = (audio m \<noteq> Some Undecodable \<and> audio m \<noteq> Some NoParts)"

text \<open>The transcript step applied to the fragments of a sequence, one after the other.\<close>

fun reconcile :: "line list \<Rightarrow> (speaker \<times> string) list \<Rightarrow> line list" where
  "reconcile ls [] = ls"
| "reconcile ls ((sp, t) # fs) = reconcile (add_fragment sp t ls) fs"

text \<open>The handler on the messages of a session, each with the output clock at its arrival.\<close>

fun run_messages ::
  "(line, 'm) player_scheme \<Rightarrow> (real \<times> message) list \<Rightarrow> (line, 'm) player_scheme" where
  "run_messages s [] = s"
| "run_messages s ((now, m) # ms) = run_messages (onmessage now m s) ms"

text \<open>
  The specification's reading of the transcript, in its own words: every maximal run of
  consecutive fragments of one speaker is one line, whose text is the concatenation of the
  run's texts.
\<close>

function merged_runs :: "(speaker \<times> string) list \<Rightarrow> line list" where
  "merged_runs [] = []"
| "merged_runs ((sp, t) # fs) =
     \<lparr>speaker = sp, text' = t @ concat (map snd (takeWhile (\<lambda>f. fst f = sp) fs))\<rparr>
       # merged_runs (dropWhile (\<lambda>f. fst f = sp) fs)"
  by pat_completeness auto
termination
  by (relation "measure length") (auto simp: length_dropWhile_le less_Suc_eq_le)

text \<open>
  The same for the revisions with finality: a fragment carries \<open>status === 'FINAL'\<close>
  along with its speaker and text.
\<close>

type_synonym ffragment = "speaker \<times> string \<times> bool"

definition ffragment_of :: "speaker \<Rightarrow> transcription option \<Rightarrow> ffragment list" where
  "ffragment_of sp tr =
     (case tr of
        None \<Rightarrow> []
      | Some t \<Rightarrow> if truthy (t_text t) then [(sp, the (t_text t), is_final t)] else [])"

definition ffragments_of :: "message \<Rightarrow> ffragment list" where
  "ffragments_of m =
     ffragment_of Candidate (inputTranscription m) @ ffragment_of Examiner (outputTranscription m)"

fun reconcile_final :: "fline list \<Rightarrow> ffragment list \<Rightarrow> fline list" where
  "reconcile_final ls [] = ls"
| "reconcile_final ls ((sp, t, fin) # fs) = reconcile_final (add_fragment_final sp t fin ls) fs"

fun run_messages_final ::
  "(fline, 'm) player_scheme \<Rightarrow> (real \<times> message) list \<Rightarrow> (fline, 'm) player_scheme" where
  "run_messages_final s [] = s"
| "run_messages_final s ((now, m) # ms) = run_messages_final (onmessage_final now m s) ms"

fun run_messages_saving ::
  "(fline, 'm) player_scheme \<times> (speaker \<times> string) list \<Rightarrow> (real \<times> message) list
     \<Rightarrow> (fline, 'm) player_scheme \<times> (speaker \<times> string) list" where
  "run_messages_saving st [] = st"
| "run_messages_saving st ((now, m) # ms) = run_messages_saving (onmessage_saving now m st) ms"

text \<open>
  The specification's reading with finality, in its own words: a line also ends when it is
  final, so a run is cut after a final fragment. \<open>run_rest sp ended fs\<close> is what of \<open>fs\<close>
  continues a run of the speaker \<open>sp\<close> whose last fragment so far was final or not
  (\<open>ended\<close>); the flag of a line is that of the last fragment of its run.
\<close>

fun run_rest :: "speaker \<Rightarrow> bool \<Rightarrow> ffragment list \<Rightarrow> ffragment list" where
  "run_rest sp ended [] = []"
| "run_rest sp ended ((sp', t, fin) # fs) =
     (if sp' = sp \<and> \<not> ended then (sp', t, fin) # run_rest sp fin fs else [])"

function merged_runs_final :: "ffragment list \<Rightarrow> fline list" where
  "merged_runs_final [] = []"
| "merged_runs_final ((sp, t, fin) # fs) =
     \<lparr>speaker = sp,
      text' = t @ concat (map (\<lambda>f. fst (snd f)) (run_rest sp fin fs)),
      isFinal = last (fin # map (\<lambda>f. snd (snd f)) (run_rest sp fin fs))\<rparr>
       # merged_runs_final (drop (length (run_rest sp fin fs)) fs)"
  by pat_completeness auto
termination
  by (relation "measure length") auto

text \<open>
  The audio branch on a sequence of decoded buffers, each given by the output clock at its
  arrival and its duration.
\<close>

fun play :: "('l, 'm) player_scheme \<Rightarrow> (real \<times> real) list \<Rightarrow> ('l, 'm) player_scheme" where
  "play s [] = s"
| "play s ((now, d) # xs) = play (schedule_buffer now d s) xs"

text \<open>The scheduler keeps pace: at every arrival \<open>nextStartTime\<close> is not behind the clock.\<close>

fun keeps_pace :: "('l, 'm) player_scheme \<Rightarrow> (real \<times> real) list \<Rightarrow> bool" where
  "keeps_pace s [] = True"
| "keeps_pace s ((now, d) # xs) =
     (now \<le> nextStartTime s \<and> keeps_pace (schedule_buffer now d s) xs)"

text \<open>The times of the calls \<open>source.start\<close> that the sequence adds to the record.\<close>

definition start_times :: "('l, 'm) player_scheme \<Rightarrow> (real \<times> real) list \<Rightarrow> real list" where
  "start_times s xs = map snd (drop (length (started s)) (started (play s xs)))"

definition nonnegative :: "(real \<times> real) list \<Rightarrow> bool" where
  "nonnegative xs = list_all (\<lambda>p. 0 \<le> snd p) xs"

section \<open>The component: recording, parts and credits\<close>

text \<open>
  The methods are those of the second revision of \<open>part_001\<close> (353-2312), the one with
  the three parts and the credits; the methods of the first revision of \<open>index.tsx\<close>
  that differ carry the suffix \<open>_index\<close>, the capture callback of the first revision of
  \<open>part_001\<close> the suffix \<open>_unguarded\<close>. Fields that only the rendering reads
  (\<open>isHistoryPanelOpen\<close>, \<open>isProfileMenuOpen\<close>, \<open>sessionFeedback\<close>,
  \<open>currentView\<close>) are left out.
\<close>

subsection \<open>Data\<close>

datatype part = Part1 | Part2 | Part3

datatype part2_state = Idle | Generating | Preparing | Speaking | Finished

datatype modality = AUDIO | TEXT

text \<open>
  A handle of \<open>window.setInterval\<close>: a positive integer, hence truthy, so that
  \<open>if (this.creditUsageInterval)\<close> asks whether the field is set.
\<close>

datatype timer = Timer nat

type_synonym session_id = nat
type_synonym media = nat

record cue_card =
  description :: string
  points :: "string list"

record intro =
  title :: string
  instructions :: "string list"
  checkboxLabel :: string

text \<open>A row of the table \<open>transcripts\<close> as the store returns it.\<close>

record history_row =
  row_session_id :: string
  row_speaker :: speaker
  row_text :: string
  row_created_at :: string

text \<open>
  The calls that leave the component, in the order they are made. \<open>SendRealtimeInput\<close>
  carries the captured frame: what is sent is \<open>createBlob\<close> of it.
\<close>

datatype effect =
    Connect string "modality list"
  | SessionClose session_id
  | SendRealtimeInput session_id "real list"
  | ResumeInput
  | GetUserMedia
  | CaptureConnect
  | CaptureDisconnect
  | TrackStop media
  | InsertTranscripts string string "line list"
  | ProcessMissingFeedback
  | SetInterval timer
  | ClearInterval timer
  | RpcDeductCredits int
  | GenerateContent
  | ConsoleError

datatype error = TypeError

text \<open>
  \<open>supabaseSession\<close> is the user's id when signed in; \<open>client\<close>, \<open>sourceNode\<close>,
  \<open>scriptProcessorNode\<close> and \<open>inputAudioContext\<close> say whether the field holds an
  object. \<open>inputAudioContext\<close> is set by its initialiser and no method assigns it.
\<close>

record app = "line player" +
  isRecording :: bool
  supabaseSession :: "string option"
  currentSessionId :: "string option"
  chatHistory :: "(string \<times> history_row list) list"
  userCredits :: "int option"
  isOutOfCreditsModalOpen :: bool
  creditUsageInterval :: "timer option"
  currentPart :: "part option"
  part2State :: part2_state
  part2CueCard :: "cue_card option"
  part2Topic :: "string option"
  part2TopicForPart3 :: "string option"
  part2PreparationTimeLeft :: int
  part2SpeakingTimeLeft :: int
  part2TimerInterval :: "timer option"
  isIntroModalOpen :: bool
  introModalContent :: "intro option"
  isIntroConfirmed :: bool
  client :: bool
  session :: "session_id option"
  inputAudioContext :: bool
  mediaStream :: "media option"
  sourceNode :: bool
  scriptProcessorNode :: bool
  effects :: "effect list"

text \<open>What the world answers to the calls of one method.\<close>

datatype insert_result = InsertError | InsertData "history_row list"

datatype rpc_result = RpcError | RpcData int | RpcNull

record cue_result =
  cue_topic :: "string option"
  cue_description :: string
  cue_points :: "string list"

record world =
  uuid :: string
  connected :: "session_id option"
  microphone :: "media option"
  credit_timer :: timer
  part_timer :: timer
  inserted :: insert_result
  rpc :: rpc_result
  cue :: "cue_result option"

subsection \<open>Constants\<close>

definition nl :: string where
  "nl = [CHR 0x0A]"

definition PART1_INSTRUCTION :: string where
  "PART1_INSTRUCTION =
     ''You are an IELTS examiner conducting Part 1 of the speaking test.'' @ nl @
     ''Ask the candidate around 11-12 questions on 3 different general topics.'' @ nl @
     ''Keep your questions concise. The user is the candidate.'' @ nl @
     ''Start the conversation by asking your first question now.''"

definition PART2_INSTRUCTION :: string where
  "PART2_INSTRUCTION =
     ''You are an IELTS examiner for Part 2 of the speaking test. The candidate will now speak for 1-2 minutes. Your task is to listen silently without speaking or interrupting.''"

definition PART3_INSTRUCTION_TEMPLATE :: "string \<Rightarrow> string" where
  "PART3_INSTRUCTION_TEMPLATE topic =
     ''You are an IELTS examiner conducting Part 3 of the speaking test.'' @ nl @
     ''The topic is a follow-up to Part 2, which was about '' @ [CHR 0x27] @ topic @ [CHR 0x27] @ ''.'' @ nl @
     ''Your role is to ask abstract and opinion-based questions related to this topic.'' @ nl @
     ''Keep your questions concise and ask only one question at a time.'' @ nl @
     ''Do not provide your own opinions, explanations, or long statements.'' @ nl @
     ''After the candidate responds, listen carefully and then ask a relevant follow-up question.'' @ nl @
     ''The goal is to simulate a real two-way discussion for 4-5 minutes.'' @ nl @
     ''Start the conversation now by asking your first question.''"

definition creditUpdateIntervalMs :: int where
  "creditUpdateIntervalMs = 10000"

definition part1_intro :: intro where
  "part1_intro =
     \<lparr>title = ''IELTS Speaking: Part 1'',
      instructions =
        [''You will be asked general questions about yourself and familiar topics.'',
         ''This part lasts for 4-5 minutes.'',
         ''Ensure you are in a quiet place with a working microphone.''],
      checkboxLabel = ''I understand and am ready to begin.''\<rparr>"

definition part2_intro :: intro where
  "part2_intro =
     \<lparr>title = ''IELTS Speaking: Part 2'',
      instructions =
        [''You will be given a cue card with a topic.'',
         ''You will have 1 minute to prepare and take notes.'',
         ''You must speak on the topic for 1-2 minutes.'',
         ''Please have a pen and paper ready for note-taking.''],
      checkboxLabel = ''I have my pen and paper, and I am ready.''\<rparr>"

definition part3_intro :: intro where
  "part3_intro =
     \<lparr>title = ''IELTS Speaking: Part 3'',
      instructions =
        [''You will be asked abstract questions related to the topic from Part 2.'',
         ''This is a two-way discussion with the examiner.'',
         ''This part lasts for 4-5 minutes.''],
      checkboxLabel = ''I understand and am ready to continue.''\<rparr>"

definition part3_refusal :: line where
  "part3_refusal =
     \<lparr>speaker = Examiner, text' = ''Please complete Part 2 before starting Part 3.''\<rparr>"

subsection \<open>Opening the session, starting and stopping\<close>

definition emit :: "effect list \<Rightarrow> app \<Rightarrow> app" where
  "emit es s = s\<lparr>effects := effects s @ es\<rparr>"

text \<open>\<open>this.userCredits !== null && this.userCredits <= 0\<close>.\<close>

definition out_of_credits :: "app \<Rightarrow> bool" where
  "out_of_credits s = (case userCredits s of None \<Rightarrow> False | Some c \<Rightarrow> c \<le> 0)"

text \<open>
  \<open>initSession\<close> (\<open>part_001\<close> 1415-1525): without a client nothing happens; a
  connection that throws is logged and leaves \<open>session\<close> as it was.
\<close>

definition initSession :: "world \<Rightarrow> string \<Rightarrow> modality list \<Rightarrow> app \<Rightarrow> app" where
  "initSession w systemInstruction responseModalities s =
     (if \<not> client s then s
      else case connected w of
             Some sess \<Rightarrow>
               (emit [Connect systemInstruction responseModalities] s)\<lparr>session := Some sess\<rparr>
           | None \<Rightarrow> emit [Connect systemInstruction responseModalities, ConsoleError] s)"

text \<open>\<open>saveCurrentSessionHistory\<close> (\<open>part_001\<close> 1240-1269).\<close>

definition saveCurrentSessionHistory :: "world \<Rightarrow> app \<Rightarrow> app" where
  "saveCurrentSessionHistory w s =
     (if supabaseSession s = None \<or> \<not> truthy (currentSessionId s) \<or> transcripts s = [] then s
      else
        let sid = the (currentSessionId s);
            s1 = emit [InsertTranscripts (the (supabaseSession s)) sid (transcripts s)] s
        in case inserted w of
             InsertError \<Rightarrow> emit [ConsoleError] s1
           | InsertData rows \<Rightarrow> s1\<lparr>chatHistory := AList.update sid rows (chatHistory s1)\<rparr>)"

text \<open>
  \<open>stopRecording\<close> (\<open>part_001\<close> 1591-1634), block by block: the topic of Part 2
  is carried forward, the two timers are cleared, a transcript that is not empty is saved
  and \<open>processMissingFeedback\<close> is launched, the flag is lowered, the session is closed,
  the capture nodes are disconnected and forgotten, the tracks of the stream are stopped.
\<close>

definition finish_part2 :: "app \<Rightarrow> app" where
  "finish_part2 s =
     (if currentPart s = Some Part2 \<and> truthy (part2Topic s)
      then s\<lparr>part2TopicForPart3 := part2Topic s, part2State := Finished\<rparr>
      else s)"

definition clear_part_timer :: "app \<Rightarrow> app" where
  "clear_part_timer s =
     (case part2TimerInterval s of
        Some t \<Rightarrow> (emit [ClearInterval t] s)\<lparr>part2TimerInterval := None\<rparr>
      | None \<Rightarrow> s)"

definition clear_credit_timer :: "app \<Rightarrow> app" where
  "clear_credit_timer s =
     (case creditUsageInterval s of
        Some t \<Rightarrow> (emit [ClearInterval t] s)\<lparr>creditUsageInterval := None\<rparr>
      | None \<Rightarrow> s)"

definition save_and_review :: "world \<Rightarrow> app \<Rightarrow> app" where
  "save_and_review w s =
     (if transcripts s \<noteq> [] then emit [ProcessMissingFeedback] (saveCurrentSessionHistory w s)
      else s)"

definition lower_flag :: "app \<Rightarrow> app" where
  "lower_flag s = s\<lparr>isRecording := False\<rparr>"

definition close_session :: "app \<Rightarrow> app" where
  "close_session s =
     (case session s of
        Some sess \<Rightarrow> (emit [SessionClose sess] s)\<lparr>session := None\<rparr>
      | None \<Rightarrow> s)"

definition disconnect_capture :: "app \<Rightarrow> app" where
  "disconnect_capture s =
     (if scriptProcessorNode s \<and> sourceNode s \<and> inputAudioContext s
      then emit [CaptureDisconnect] s
      else s)"

definition forget_nodes :: "app \<Rightarrow> app" where
  "forget_nodes s = s\<lparr>scriptProcessorNode := False, sourceNode := False\<rparr>"

definition release_media :: "app \<Rightarrow> app" where
  "release_media s =
     (case mediaStream s of
        Some m \<Rightarrow> (emit [TrackStop m] s)\<lparr>mediaStream := None\<rparr>
      | None \<Rightarrow> s)"

definition stopRecording :: "world \<Rightarrow> app \<Rightarrow> app" where
  "stopRecording w s =
     (if \<not> isRecording s \<and> mediaStream s = None \<and> \<not> inputAudioContext s then s
      else
        release_media (forget_nodes (disconnect_capture (close_session (lower_flag
          (save_and_review w (clear_credit_timer (clear_part_timer (finish_part2 s)))))))))"

definition stopCurrentSession :: "world \<Rightarrow> app \<Rightarrow> app" where
  "stopCurrentSession w s = (if isRecording s then stopRecording w s else s)"

text \<open>
  \<open>startRecording\<close> (\<open>part_001\<close> 1527-1589). \<open>getUserMedia\<close> is the call of the
  \<open>try\<close> block that can reject: \<open>begin_capture\<close> is the block up to the raising of
  the flag when the microphone is granted, and the log of the \<open>catch\<close> otherwise, after
  which the \<open>catch\<close> stops the recording.
\<close>

definition begin_capture :: "world \<Rightarrow> app \<Rightarrow> app" where
  "begin_capture w s =
     (case microphone w of
        Some m \<Rightarrow>
          (emit [CaptureConnect] s)
            \<lparr>mediaStream := Some m, sourceNode := True, scriptProcessorNode := True,
             isRecording := True\<rparr>
      | None \<Rightarrow> emit [ConsoleError] s)"

definition start_credit_timer :: "world \<Rightarrow> app \<Rightarrow> app" where
  "start_credit_timer w s =
     (emit [SetInterval (credit_timer w)] s)\<lparr>creditUsageInterval := Some (credit_timer w)\<rparr>"

definition reset_for_session :: "world \<Rightarrow> app \<Rightarrow> app" where
  "reset_for_session w s = s\<lparr>transcripts := [], currentSessionId := Some (uuid w)\<rparr>"

definition startRecording :: "world \<Rightarrow> string \<Rightarrow> modality list \<Rightarrow> app \<Rightarrow> app" where
  "startRecording w systemInstruction responseModalities s =
     (if out_of_credits s then s\<lparr>isOutOfCreditsModalOpen := True\<rparr>
      else if isRecording s then s
      else
        let s2 = initSession w systemInstruction responseModalities (reset_for_session w s)
        in if session s2 = None then emit [ConsoleError] s2
           else
             let s3 = begin_capture w (emit [ResumeInput, GetUserMedia] s2)
             in if microphone w = None then stopRecording w s3
                else start_credit_timer w s3)"

text \<open>
  The callback \<open>onaudioprocess\<close> that \<open>startRecording\<close> installs
  (\<open>index.tsx\<close> 636-643, \<open>part_001\<close> 1568-1575).
\<close>

definition onaudioprocess :: "real list \<Rightarrow> app \<Rightarrow> error + app" where
  "onaudioprocess pcmData s =
     (if \<not> isRecording s \<or> session s = None then Inr s
      else Inr (emit [SendRealtimeInput (the (session s)) pcmData] s))"

text \<open>
  The same callback in the first revision of \<open>part_001\<close> (284-291): the guard reads the
  recording flag only, and \<open>this.session.sendRealtimeInput\<close> on an absent session
  throws.
\<close>

definition onaudioprocess_unguarded :: "real list \<Rightarrow> app \<Rightarrow> error + app" where
  "onaudioprocess_unguarded pcmData s =
     (if \<not> isRecording s then Inr s
      else case session s of
             None \<Rightarrow> Inl TypeError
           | Some sess \<Rightarrow> Inr (emit [SendRealtimeInput sess pcmData] s))"

subsection \<open>The first revision of \<open>index.tsx\<close>\<close>

text \<open>\<open>initSession\<close> (492-600): no parameters, the same connection.\<close>

definition initSession_index :: "world \<Rightarrow> app \<Rightarrow> app" where
  "initSession_index w s =
     (if \<not> client s then s
      else case connected w of
             Some sess \<Rightarrow> (emit [Connect [] [AUDIO]] s)\<lparr>session := Some sess\<rparr>
           | None \<Rightarrow> emit [Connect [] [AUDIO], ConsoleError] s)"

text \<open>
  \<open>saveCurrentSessionHistory\<close> (432-463) in its two halves: up to the \<open>await\<close> the
  insertion is sent; after it an error of the insertion is logged.
\<close>

definition save_sent :: "app \<Rightarrow> bool" where
  "save_sent s =
     (\<not> (supabaseSession s = None \<or> \<not> truthy (currentSessionId s) \<or> transcripts s = []))"

definition send_insert :: "app \<Rightarrow> app" where
  "send_insert s =
     (if supabaseSession s = None \<or> \<not> truthy (currentSessionId s) \<or> transcripts s = [] then s
      else emit [InsertTranscripts (the (supabaseSession s)) (the (currentSessionId s))
                   (transcripts s)] s)"

definition settle_insert :: "world \<Rightarrow> bool \<Rightarrow> app \<Rightarrow> app" where
  "settle_insert w sent s =
     (if sent
      then (case inserted w of InsertError \<Rightarrow> emit [ConsoleError] s | InsertData rows \<Rightarrow> s)
      else s)"

text \<open>
  \<open>stopRecording\<close> (655-680): the save is called first and not awaited (659), so its
  insertion is sent and the method goes on; then the same blocks as above from the lowering
  of the flag on. The second half of the save runs once the method has returned.
\<close>

definition stopRecording_index :: "world \<Rightarrow> app \<Rightarrow> app" where
  "stopRecording_index w s =
     (if \<not> isRecording s \<and> mediaStream s = None \<and> \<not> inputAudioContext s then s
      else
        settle_insert w (save_sent s)
          (release_media (forget_nodes (disconnect_capture (close_session (lower_flag
            (send_insert s)))))))"

text \<open>\<open>startRecording\<close> (602-653).\<close>

definition startRecording_index :: "world \<Rightarrow> app \<Rightarrow> app" where
  "startRecording_index w s =
     (if isRecording s then s
      else
        let s2 = initSession_index w (reset_for_session w s)
        in if session s2 = None then emit [ConsoleError] s2
           else
             let s3 = begin_capture w (emit [ResumeInput, GetUserMedia] s2)
             in if microphone w = None then stopRecording_index w s3
                else s3)"

subsection \<open>The parts\<close>

definition open_intro :: "intro \<Rightarrow> app \<Rightarrow> app" where
  "open_intro c s = s\<lparr>introModalContent := Some c, isIntroConfirmed := False, isIntroModalOpen := True\<rparr>"

text \<open>
  \<open>handlePartSelect\<close> (\<open>part_001\<close> 1642-1706): the running session is stopped, the
  credit gate is passed, the part and the working state of Part 2 are reset
  (\<open>reset_part\<close>), and only then the \<open>switch\<close> looks at the part.
\<close>

definition reset_part :: "part \<Rightarrow> app \<Rightarrow> app" where
  "reset_part p s =
     s\<lparr>currentPart := Some p, transcripts := [], part2CueCard := None, part2Topic := None,
       part2State := Idle, part2PreparationTimeLeft := 60, part2SpeakingTimeLeft := 120\<rparr>"

definition handlePartSelect :: "world \<Rightarrow> part \<Rightarrow> app \<Rightarrow> app" where
  "handlePartSelect w p s =
     (let s0 = stopCurrentSession w s
      in if out_of_credits s0 then s0\<lparr>isOutOfCreditsModalOpen := True\<rparr>
         else
           let s1 = reset_part p s0
           in case p of
                Part1 \<Rightarrow> open_intro part1_intro s1
              | Part2 \<Rightarrow> open_intro part2_intro s1
              | Part3 \<Rightarrow>
                  if \<not> truthy (part2TopicForPart3 s1) then s1\<lparr>transcripts := [part3_refusal]\<rparr>
                  else open_intro part3_intro s1)"

text \<open>\<open>startPart2Preparation\<close> (1776-1788), without the body of its timer.\<close>

definition startPart2Preparation :: "world \<Rightarrow> app \<Rightarrow> app" where
  "startPart2Preparation w s =
     (emit [SetInterval (part_timer w)] s)
       \<lparr>part2State := Preparing, part2PreparationTimeLeft := 60,
        part2TimerInterval := Some (part_timer w)\<rparr>"

text \<open>
  \<open>generateCueCard\<close> (1729-1774): \<open>cue w\<close> is the parsed answer, \<open>None\<close> when the
  request or \<open>JSON.parse\<close> throws. Without a client \<open>this.client.models\<close> throws
  before the request is made; the \<open>catch\<close> is the same.
\<close>

definition cue_card_failed :: "app \<Rightarrow> app" where
  "cue_card_failed s =
     (emit [ConsoleError] s)
       \<lparr>transcripts :=
          [\<lparr>speaker = Examiner,
            text' = ''Sorry, there was an error generating the cue card. Please try again.''\<rparr>],
        part2State := Idle\<rparr>"

definition generateCueCard :: "world \<Rightarrow> app \<Rightarrow> app" where
  "generateCueCard w s =
     (if \<not> client s then cue_card_failed s
      else case cue w of
             Some r \<Rightarrow>
               startPart2Preparation w
                 ((emit [GenerateContent] s)
                    \<lparr>part2Topic := cue_topic r,
                     part2CueCard := Some \<lparr>description = cue_description r, points = cue_points r\<rparr>,
                     transcripts := []\<rparr>)
           | None \<Rightarrow> cue_card_failed (emit [GenerateContent] s))"

text \<open>\<open>handleStartPart\<close> (1708-1727).\<close>

definition handleStartPart :: "world \<Rightarrow> app \<Rightarrow> app" where
  "handleStartPart w s =
     (let s1 = s\<lparr>isIntroModalOpen := False\<rparr>
      in case currentPart s1 of
           None \<Rightarrow> s1
         | Some Part1 \<Rightarrow> startRecording w PART1_INSTRUCTION [AUDIO] s1
         | Some Part2 \<Rightarrow>
             generateCueCard w
               (s1\<lparr>part2State := Generating,
                   transcripts :=
                     [\<lparr>speaker = Examiner, text' = ''Generating your Part 2 cue card...''\<rparr>]\<rparr>)
         | Some Part3 \<Rightarrow>
             if truthy (part2TopicForPart3 s1)
             then startRecording w (PART3_INSTRUCTION_TEMPLATE (the (part2TopicForPart3 s1))) [AUDIO] s1
             else s1)"

text \<open>
  \<open>startPart2SpeakingSession\<close> (1790-1807) and the bodies of the two one-second timers
  of Part 2 (1780-1787, 1799-1806).
\<close>

definition startPart2SpeakingSession :: "world \<Rightarrow> app \<Rightarrow> app" where
  "startPart2SpeakingSession w s =
     (let s1 = startRecording w PART2_INSTRUCTION [AUDIO]
                 (s\<lparr>part2State := Speaking, part2SpeakingTimeLeft := 120\<rparr>)
      in (emit [SetInterval (part_timer w)] s1)\<lparr>part2TimerInterval := Some (part_timer w)\<rparr>)"

definition preparation_tick :: "world \<Rightarrow> app \<Rightarrow> app" where
  "preparation_tick w s =
     (let s1 = s\<lparr>part2PreparationTimeLeft := part2PreparationTimeLeft s - 1\<rparr>
      in if part2PreparationTimeLeft s1 \<le> 0
         then startPart2SpeakingSession w (clear_part_timer s1)
         else s1)"

definition speaking_tick :: "world \<Rightarrow> app \<Rightarrow> app" where
  "speaking_tick w s =
     (let s1 = s\<lparr>part2SpeakingTimeLeft := part2SpeakingTimeLeft s - 1\<rparr>
      in if part2SpeakingTimeLeft s1 \<le> 0
         then stopCurrentSession w (clear_part_timer s1)
         else s1)"

text \<open>The body of the preparation timer, run once a second for a number of seconds.\<close>

fun preparation_ticks :: "nat \<Rightarrow> world \<Rightarrow> app \<Rightarrow> app" where
  "preparation_ticks 0 w s = s"
| "preparation_ticks (Suc n) w s = preparation_tick w (preparation_ticks n w s)"

subsection \<open>Credits\<close>

text \<open>
  \<open>deductCredits\<close> (1862-1884), the body of the timer that \<open>startRecording\<close> sets.
  \<open>rpc w\<close> is the answer of \<open>supabase.rpc('deduct_credits', ...)\<close>: an error, the
  balance after the deduction, or neither (\<open>data\<close> is \<open>null\<close>, which is stored and for
  which \<open>null <= 0\<close> holds).
\<close>

definition deductCredits :: "world \<Rightarrow> app \<Rightarrow> app" where
  "deductCredits w s =
     (if \<not> isRecording s \<or> userCredits s = None then s
      else
        let secondsToDeduct = creditUpdateIntervalMs div 1000;
            s1 = emit [RpcDeductCredits secondsToDeduct] s
        in case rpc w of
             RpcError \<Rightarrow> emit [ConsoleError] s1
           | RpcData d \<Rightarrow>
               let s2 = s1\<lparr>userCredits := Some d\<rparr>
               in if d \<le> 0 then (stopCurrentSession w s2)\<lparr>isOutOfCreditsModalOpen := True\<rparr>
                  else s2
           | RpcNull \<Rightarrow>
               (stopCurrentSession w (s1\<lparr>userCredits := None\<rparr>))\<lparr>isOutOfCreditsModalOpen := True\<rparr>)"

subsection \<open>What a call of \<open>saveCurrentSessionHistory\<close> sends and stores\<close>

definition save_effects :: "world \<Rightarrow> app \<Rightarrow> effect list" where
  "save_effects w s =
     (if supabaseSession s = None \<or> \<not> truthy (currentSessionId s) \<or> transcripts s = [] then []
      else InsertTranscripts (the (supabaseSession s)) (the (currentSessionId s)) (transcripts s)
             # (case inserted w of InsertError \<Rightarrow> [ConsoleError] | InsertData rows \<Rightarrow> []))"

definition insert_effects :: "app \<Rightarrow> effect list" where
  "insert_effects s =
     (if supabaseSession s = None \<or> \<not> truthy (currentSessionId s) \<or> transcripts s = [] then []
      else [InsertTranscripts (the (supabaseSession s)) (the (currentSessionId s)) (transcripts s)])"

definition insert_error_log :: "world \<Rightarrow> app \<Rightarrow> effect list" where
  "insert_error_log w s =
     (if supabaseSession s = None \<or> \<not> truthy (currentSessionId s) \<or> transcripts s = [] then []
      else case inserted w of InsertError \<Rightarrow> [ConsoleError] | InsertData rows \<Rightarrow> [])"

definition save_history :: "world \<Rightarrow> app \<Rightarrow> (string \<times> history_row list) list" where
  "save_history w s =
     (if supabaseSession s = None \<or> \<not> truthy (currentSessionId s) \<or> transcripts s = []
      then chatHistory s
      else case inserted w of
             InsertError \<Rightarrow> chatHistory s
           | InsertData rows \<Rightarrow> AList.update (the (currentSessionId s)) rows (chatHistory s))"

fun is_insert :: "effect \<Rightarrow> bool" where
  "is_insert (InsertTranscripts u sid ls) = True"
| "is_insert e = False"

subsection \<open>Example states\<close>

text \<open>The component after its field initialisers.\<close>

definition initial_app :: app where
  "initial_app =
     \<lparr>transcripts = [], nextStartTime = 0, sources = [], fresh = 0, started = [], stopped = [],
      isRecording = False, supabaseSession = None, currentSessionId = None, chatHistory = [],
      userCredits = None, isOutOfCreditsModalOpen = False, creditUsageInterval = None,
      currentPart = None, part2State = Idle, part2CueCard = None, part2Topic = None,
      part2TopicForPart3 = None, part2PreparationTimeLeft = 60, part2SpeakingTimeLeft = 120,
      part2TimerInterval = None, isIntroModalOpen = False, introModalContent = None,
      isIntroConfirmed = False, client = False, session = None, inputAudioContext = True,
      mediaStream = None, sourceNode = False, scriptProcessorNode = False, effects = []\<rparr>"

text \<open>A world in which every call succeeds.\<close>

definition calm_world :: world where
  "calm_world =
     \<lparr>uuid = ''3f2a'', connected = Some 7, microphone = Some 4, credit_timer = Timer 11,
      part_timer = Timer 12, inserted = InsertData [], rpc = RpcData 90, cue = None\<rparr>"

text \<open>A signed-in user recording Part 1, one line in the transcript.\<close>

definition recording_example :: app where
  "recording_example =
     initial_app
       \<lparr>transcripts := [\<lparr>speaker = Candidate, text' = ''Hello''\<rparr>],
        isRecording := True, supabaseSession := Some ''user-1'', currentSessionId := Some ''3f2a'',
        userCredits := Some 100, creditUsageInterval := Some (Timer 11),
        currentPart := Some Part1, client := True, session := Some 7, mediaStream := Some 4,
        sourceNode := True, scriptProcessorNode := True\<rparr>"

text \<open>Part 2 during its minute of preparation: a cue card and a topic, nothing carried forward.\<close>

definition preparing_example :: app where
  "preparing_example =
     initial_app
       \<lparr>supabaseSession := Some ''user-1'', userCredits := Some 100, currentPart := Some Part2,
        part2State := Preparing,
        part2CueCard :=
          Some \<lparr>description = ''Describe a memorable trip.'', points = [''Where you went'']\<rparr>,
        part2Topic := Some ''A memorable trip'', part2PreparationTimeLeft := 42,
        part2TimerInterval := Some (Timer 12), client := True\<rparr>"

text \<open>Part 2 while the candidate speaks.\<close>

definition speaking_example :: app where
  "speaking_example =
     recording_example
       \<lparr>currentPart := Some Part2, part2State := Speaking,
        part2CueCard :=
          Some \<lparr>description = ''Describe a memorable trip.'', points = [''Where you went'']\<rparr>,
        part2Topic := Some ''A memorable trip'', part2SpeakingTimeLeft := 75,
        part2TimerInterval := Some (Timer 12)\<rparr>"

definition fragment :: "string \<Rightarrow> transcription" where
  "fragment t = \<lparr>t_text = Some t, t_status = None\<rparr>"

definition silent :: message where
  "silent = \<lparr>audio = None, inputTranscription = None, outputTranscription = None,
             interrupted = False\<rparr>"

definition hello_messages :: "(real \<times> message) list" where
  "hello_messages =
     [(0, silent\<lparr>inputTranscription := Some (fragment ''Hel'')\<rparr>),
      (1, silent\<lparr>inputTranscription := Some (fragment ''lo'')\<rparr>),
      (2, silent\<lparr>outputTranscription := Some (fragment ''Hi'')\<rparr>)]"

definition empty_text_messages :: "(real \<times> message) list" where
  "empty_text_messages =
     [(0, silent\<lparr>inputTranscription := Some (fragment ''Hi'')\<rparr>),
      (1, silent\<lparr>outputTranscription := Some (fragment [])\<rparr>)]"

text \<open>A message whose inline audio does not decode, with a fragment of the candidate.\<close>

definition undecodable_messages :: "(real \<times> message) list" where
  "undecodable_messages =
     [(0, silent\<lparr>audio := Some Undecodable, inputTranscription := Some (fragment ''Hi'')\<rparr>)]"

text \<open>The player of a finality revision after its field initialisers.\<close>

definition initial_player :: "fline player" where
  "initial_player =
     \<lparr>transcripts = [], nextStartTime = 0, sources = [], fresh = 0, started = [], stopped = []\<rparr>"

definition final_fragment :: "string \<Rightarrow> transcription" where
  "final_fragment t = \<lparr>t_text = Some t, t_status = Some ''FINAL''\<rparr>"

text \<open>The candidate's second fragment is final; the candidate then goes on.\<close>

definition final_messages :: "(real \<times> message) list" where
  "final_messages =
     [(0, silent\<lparr>inputTranscription := Some (fragment ''Hel'')\<rparr>),
      (1, silent\<lparr>inputTranscription := Some (final_fragment ''lo'')\<rparr>),
      (2, silent\<lparr>inputTranscription := Some (fragment ''Bye'')\<rparr>),
      (3, silent\<lparr>outputTranscription := Some (fragment ''Hi'')\<rparr>)]"

text \<open>Part 2 during its preparation, the balance used up.\<close>

definition broke_example :: app where
  "broke_example = preparing_example\<lparr>userCredits := Some 0\<rparr>"

text \<open>Three buffers that arrive while the one before still plays.\<close>

definition three_buffers :: "(real \<times> real) list" where
  "three_buffers = [(1/2, 2), (2, 1), (7/2, 1/2)]"

definition late_player :: app where
  "late_player = initial_app\<lparr>nextStartTime := 1\<rparr>"

text \<open>Two sources scheduled ahead of the clock.\<close>

definition playing_example :: app where
  "playing_example =
     initial_app\<lparr>nextStartTime := 10, sources := [3, 4], fresh := 5,
                 started := [(3, 8), (4, 9)]\<rparr>"

text \<open>A signed-in user who is not recording, and a world in which the connection throws.\<close>

definition signed_in_example :: app where
  "signed_in_example =
     initial_app
       \<lparr>transcripts := [\<lparr>speaker = Examiner, text' = ''An earlier line''\<rparr>],
        supabaseSession := Some ''user-1'', currentSessionId := Some ''1e0c'',
        userCredits := Some 100, client := True\<rparr>"

definition offline_world :: world where
  "offline_world = calm_world\<lparr>connected := None\<rparr>"

subsection \<open>Auxiliary functions\<close>

text \<open>The last line takes what is left of its run; the rest of the fragments follows.\<close>

definition absorb :: "line \<Rightarrow> (speaker \<times> string) list \<Rightarrow> line list" where
  "absorb l fs =
     l\<lparr>text' := text' l @ concat (map snd (takeWhile (\<lambda>f. fst f = speaker l) fs))\<rparr>
       # merged_runs (dropWhile (\<lambda>f. fst f = speaker l) fs)"

definition absorb_final :: "fline \<Rightarrow> ffragment list \<Rightarrow> fline list" where
  "absorb_final l fs =
     l\<lparr>text' := text' l @ concat (map (\<lambda>f. fst (snd f)) (run_rest (speaker l) (isFinal l) fs)),
       isFinal := last (isFinal l # map (\<lambda>f. snd (snd f)) (run_rest (speaker l) (isFinal l) fs))\<rparr>
       # merged_runs_final (drop (length (run_rest (speaker l) (isFinal l) fs)) fs)"

text \<open>The start times and the pace of a sequence of buffers, from \<open>nextStartTime\<close> alone.\<close>

fun slots :: "real \<Rightarrow> (real \<times> real) list \<Rightarrow> real list" where
  "slots t [] = []"
| "slots t ((now, d) # xs) = max t now # slots (max t now + d) xs"

fun on_time :: "real \<Rightarrow> (real \<times> real) list \<Rightarrow> bool" where
  "on_time t [] = True"
| "on_time t ((now, d) # xs) = (now \<le> t \<and> on_time (t + d) xs)"

section \<open>The PCM codec\<close>

text \<open>
  Every revision imports \<open>createBlob\<close>, \<open>decode\<close> and \<open>decodeAudioData\<close> from
  \<open>./utils\<close>, a module that is not among the sources. The codec below follows section
  4.2 of the specification. Samples are reals: a 32-bit float times 32768 and a 16-bit
  integer divided by 32768 are exact in binary floating point.
\<close>

type_synonym byte = "8 word"

type_synonym int16 = "16 word"

datatype codec_error = DecodeError | MalformedAudioError

text \<open>Modelled from the spec: \<open>EncodedBlob\<close>, a descriptor of the type and a base64 payload.\<close>

record encoded_blob =
  mimeTypeDescriptor :: string
  payload :: string

text \<open>Modelled from the spec: \<open>DecodedAudioBuffer\<close>, the samples of each channel at a rate.\<close>

record decoded_audio_buffer =
  sampleRate :: nat
  channels :: "real list list"

text \<open>
  Modelled from the spec: the conversion of a sample to a 16-bit signed integer, "by multiplying
  by 32768 and clamping implicitly by the conversion range". The fraction is dropped
  towards zero, as a conversion of a float to an integer does.
\<close>

definition trunc :: "real \<Rightarrow> int" where
  "trunc y = (if 0 \<le> y then \<lfloor>y\<rfloor> else \<lceil>y\<rceil>)"

definition to_int16 :: "real \<Rightarrow> int16" where
  "to_int16 x = word_of_int (max (- 32768) (min 32767 (trunc (x * 32768))))"

text \<open>Modelled from the spec: "packs little-endian", low byte first.\<close>

definition le_bytes :: "int16 \<Rightarrow> byte list" where
  "le_bytes w = [of_nat (unat w mod 256), of_nat (unat w div 256)]"

definition pack :: "int16 list \<Rightarrow> byte list" where
  "pack ws = concat (map le_bytes ws)"

text \<open>
  Modelled from the spec: "base64-encodes the byte buffer": the standard alphabet, three bytes
  to four characters, padded with \<open>=\<close>.
\<close>

definition alphabet :: string where
  "alphabet = ''ABCDEFGHIJKLMNOPQRSTUVWXYZabcdefghijklmnopqrstuvwxyz0123456789+/''"

definition sextet_char :: "nat \<Rightarrow> char" where
  "sextet_char v = alphabet ! (v mod 64)"

fun index_of :: "'a \<Rightarrow> 'a list \<Rightarrow> nat option" where
  "index_of x [] = None"
| "index_of x (y # ys) = (if x = y then Some 0 else map_option Suc (index_of x ys))"

definition char_sextet :: "char \<Rightarrow> nat option" where
  "char_sextet c = index_of c alphabet"

definition group24 :: "byte \<Rightarrow> byte \<Rightarrow> byte \<Rightarrow> nat" where
  "group24 a b c = (unat a * 256 + unat b) * 256 + unat c"

definition sextet :: "nat \<Rightarrow> nat \<Rightarrow> nat" where
  "sextet k n = (n div 64 ^ k) mod 64"

fun encode_b64 :: "byte list \<Rightarrow> string" where
  "encode_b64 [] = []"
| "encode_b64 [a] =
     (let n = group24 a 0 0
      in [sextet_char (sextet 3 n), sextet_char (sextet 2 n), CHR ''='', CHR ''=''])"
| "encode_b64 [a, b] =
     (let n = group24 a b 0
      in [sextet_char (sextet 3 n), sextet_char (sextet 2 n), sextet_char (sextet 1 n),
          CHR ''=''])"
| "encode_b64 (a # b # c # bs) =
     (let n = group24 a b c
      in [sextet_char (sextet 3 n), sextet_char (sextet 2 n), sextet_char (sextet 1 n),
          sextet_char (sextet 0 n)] @ encode_b64 bs)"

text \<open>
  Modelled from the spec: \<open>encodeFrame(samples) -> EncodedBlob\<close> (\<open>createBlob\<close> in the
  sources' import). The specification does not give the descriptor; it is a parameter.
\<close>

definition encodeFrame :: "string \<Rightarrow> real list \<Rightarrow> encoded_blob" where
  "encodeFrame mime samples =
     \<lparr>mimeTypeDescriptor = mime, payload = encode_b64 (pack (map to_int16 samples))\<rparr>"

text \<open>
  Modelled from the spec: \<open>decodeBase64(payload) -> byte buffer\<close>, the "inverse of base64
  step; fails with \<open>DecodeError\<close> on malformed input" (\<open>decode\<close> in the sources' import).
\<close>

definition ungroup24 :: "nat \<Rightarrow> nat \<Rightarrow> nat \<Rightarrow> nat \<Rightarrow> nat" where
  "ungroup24 v1 v2 v3 v4 = ((v1 * 64 + v2) * 64 + v3) * 64 + v4"

definition octet :: "nat \<Rightarrow> nat \<Rightarrow> byte" where
  "octet k n = of_nat ((n div 256 ^ k) mod 256)"

fun decodeBase64 :: "string \<Rightarrow> codec_error + byte list" where
  "decodeBase64 [] = Inr []"
| "decodeBase64 (c1 # c2 # c3 # c4 # cs) =
     (if cs = [] \<and> c4 = CHR ''='' then
        (if c3 = CHR ''='' then
           (case (char_sextet c1, char_sextet c2) of
              (Some v1, Some v2) \<Rightarrow> Inr [octet 2 (ungroup24 v1 v2 0 0)]
            | _ \<Rightarrow> Inl DecodeError)
         else
           (case (char_sextet c1, char_sextet c2, char_sextet c3) of
              (Some v1, Some v2, Some v3) \<Rightarrow>
                (let n = ungroup24 v1 v2 v3 0 in Inr [octet 2 n, octet 1 n])
            | _ \<Rightarrow> Inl DecodeError))
      else
        (case (char_sextet c1, char_sextet c2, char_sextet c3, char_sextet c4) of
           (Some v1, Some v2, Some v3, Some v4) \<Rightarrow>
             (let n = ungroup24 v1 v2 v3 v4
              in case decodeBase64 cs of
                   Inr bs \<Rightarrow> Inr (octet 2 n # octet 1 n # octet 0 n # bs)
                 | Inl e \<Rightarrow> Inl e)
         | _ \<Rightarrow> Inl DecodeError))"
| "decodeBase64 _ = Inl DecodeError"

text \<open>
  Modelled from the spec: \<open>decodeAudioData(bytes, sampleRate, channelCount)\<close>: "interprets
  bytes as little-endian 16-bit PCM, de-interleaves per channel, rescales each sample by
  dividing by 32768", with \<open>len(bytes)/2/channelCount\<close> samples per channel, and "fails
  with \<open>MalformedAudioError\<close> if byte length is not a multiple of \<open>2*channelCount\<close>".
\<close>

definition from_le :: "byte \<Rightarrow> byte \<Rightarrow> int16" where
  "from_le lo hi = of_nat (unat lo + 256 * unat hi)"

fun unpack :: "byte list \<Rightarrow> int16 list" where
  "unpack (lo # hi # bs) = from_le lo hi # unpack bs"
| "unpack _ = []"

definition decodeAudioData :: "byte list \<Rightarrow> nat \<Rightarrow> nat \<Rightarrow> codec_error + decoded_audio_buffer" where
  "decodeAudioData bs rate channelCount =
     (if length bs mod (2 * channelCount) \<noteq> 0 then Inl MalformedAudioError
      else
        let samples = map (\<lambda>w. real_of_int (sint w) / 32768) (unpack bs);
            frames = length bs div 2 div channelCount
        in Inr \<lparr>sampleRate = rate,
                channels = map (\<lambda>c. map (\<lambda>i. samples ! (i * channelCount + c)) [0..<frames])
                             [0..<channelCount]\<rparr>)"

text \<open>
  Modelled from the spec: \<open>decodeAudioData(encodeFrame(samples))\<close> of the round-trip property,
  through the base64 decoding, on one channel.
\<close>

definition round_trip :: "string \<Rightarrow> nat \<Rightarrow> real list \<Rightarrow> codec_error + decoded_audio_buffer" where
  "round_trip mime rate samples =
     (case decodeBase64 (payload (encodeFrame mime samples)) of
        Inl e \<Rightarrow> Inl e
      | Inr bs \<Rightarrow> decodeAudioData bs rate 1)"

section \<open>Properties of the message handler\<close>

subsection \<open>Transcript reconciliation\<close>

lemma add_fragment_snoc:
  "add_fragment sp t (pre @ [l]) =
     (if speaker l = sp then pre @ [l\<lparr>text' := text' l @ t\<rparr>]
      else pre @ [l, \<lparr>speaker = sp, text' = t\<rparr>])"
  by (simp add: add_fragment_def lastTranscript_def)

lemma add_fragment_Nil: "add_fragment sp t [] = [\<lparr>speaker = sp, text' = t\<rparr>]"
  by (simp add: add_fragment_def lastTranscript_def)

lemma reconcile_snoc: "reconcile (pre @ [l]) fs = pre @ absorb l fs"
proof (induction fs arbitrary: pre l)
  case Nil
  show ?case by (simp add: absorb_def)
next
  case (Cons f fs)
  obtain sp t where f: "f = (sp, t)" by (cases f)
  show ?case
  proof (cases "speaker l = sp")
    case True
    have "reconcile (pre @ [l]) (f # fs) = reconcile (pre @ [l\<lparr>text' := text' l @ t\<rparr>]) fs"
      by (simp add: f add_fragment_snoc True)
    also have "\<dots> = pre @ absorb (l\<lparr>text' := text' l @ t\<rparr>) fs"
      by (rule Cons.IH)
    also have "absorb (l\<lparr>text' := text' l @ t\<rparr>) fs = absorb l (f # fs)"
      by (simp add: absorb_def f True)
    finally show ?thesis .
  next
    case False
    have "reconcile (pre @ [l]) (f # fs) = reconcile ((pre @ [l]) @ [\<lparr>speaker = sp, text' = t\<rparr>]) fs"
      by (simp add: f add_fragment_snoc False)
    also have "\<dots> = (pre @ [l]) @ absorb \<lparr>speaker = sp, text' = t\<rparr> fs"
      by (rule Cons.IH)
    also have "\<dots> = pre @ absorb l (f # fs)"
      using False by (simp add: absorb_def f)
    finally show ?thesis .
  qed
qed

lemma reconcile_merged_runs: "reconcile [] fs = merged_runs fs"
proof (cases fs)
  case Nil
  then show ?thesis by simp
next
  case (Cons f fs')
  obtain sp t where f: "f = (sp, t)" by (cases f)
  have "reconcile [] fs = reconcile ([] @ [\<lparr>speaker = sp, text' = t\<rparr>]) fs'"
    by (simp add: Cons f add_fragment_Nil)
  also have "\<dots> = absorb \<lparr>speaker = sp, text' = t\<rparr> fs'"
    using reconcile_snoc [of "[]"] by simp
  finally show ?thesis by (simp add: Cons f absorb_def)
qed

lemma on_transcription_reconcile:
  "on_transcription sp tr ls = reconcile ls (fragment_of sp tr)"
  by (simp add: on_transcription_def fragment_of_def split: option.splits)

lemma reconcile_append: "reconcile ls (fs @ gs) = reconcile (reconcile ls fs) gs"
  by (induction fs arbitrary: ls) auto

lemma stop_each_transcripts: "transcripts (stop_each xs s) = transcripts s"
  by (induction xs arbitrary: s) auto

lemma onmessage_transcripts:
  "decodable m \<Longrightarrow>
     transcripts (onmessage now m s) = reconcile (transcripts s) (fragments_of m)"
  by (cases "audio m"; cases "the (audio m)")
     (auto simp: onmessage_def on_audio_def decodable_def fragments_of_def reconcile_append
         on_transcription_reconcile on_interrupted_def stop_each_transcripts schedule_buffer_def Let_def)

lemma run_messages_transcripts:
  "list_all (\<lambda>p. decodable (snd p)) ms \<Longrightarrow>
     transcripts (run_messages s ms) =
       reconcile (transcripts s) (concat (map (\<lambda>p. fragments_of (snd p)) ms))"
  by (induction ms arbitrary: s) (auto simp: onmessage_transcripts reconcile_append)

lemma add_fragment_last:
  "add_fragment sp t ls =
     (if ls \<noteq> [] \<and> speaker (last ls) = sp
      then butlast ls @ [(last ls)\<lparr>text' := text' (last ls) @ t\<rparr>]
      else ls @ [\<lparr>speaker = sp, text' = t\<rparr>])"
  by (simp add: add_fragment_def lastTranscript_def)

lemma add_fragment_final_last:
  "add_fragment_final sp t fin ls =
     (if ls \<noteq> [] \<and> speaker (last ls) = sp \<and> \<not> isFinal (last ls)
      then butlast ls @ [(last ls)\<lparr>text' := text' (last ls) @ t, isFinal := fin\<rparr>]
      else ls @ [\<lparr>speaker = sp, text' = t, isFinal = fin\<rparr>])"
  by (simp add: add_fragment_final_def lastTranscript_def)

lemma add_fragment_saving_lines:
  "fst (add_fragment_saving sp t fin (ls, saves)) = add_fragment_final sp t fin ls"
proof (cases "ls = []")
  case True
  then show ?thesis
    by (simp add: add_fragment_saving_def add_fragment_final_def lastTranscript_def)
next
  case False
  obtain l where l: "last ls = l" by simp
  show ?thesis
  proof (cases "speaker l = sp \<and> \<not> isFinal l")
    case True
    then have "l\<lparr>text' := text' l @ t\<rparr> = l\<lparr>text' := text' l @ t, isFinal := False\<rparr>"
      by (cases l) simp
    with True False l show ?thesis
      by (simp add: add_fragment_saving_def add_fragment_final_def lastTranscript_def Let_def)
  next
    case no: False
    with False l show ?thesis
      by (auto simp: add_fragment_saving_def add_fragment_final_def lastTranscript_def Let_def)
  qed
qed

lemma add_fragment_final_snoc:
  "add_fragment_final sp t fin (pre @ [l]) =
     (if speaker l = sp \<and> \<not> isFinal l then pre @ [l\<lparr>text' := text' l @ t, isFinal := fin\<rparr>]
      else pre @ [l, \<lparr>speaker = sp, text' = t, isFinal = fin\<rparr>])"
  by (simp add: add_fragment_final_def lastTranscript_def)

lemma add_fragment_final_Nil:
  "add_fragment_final sp t fin [] = [\<lparr>speaker = sp, text' = t, isFinal = fin\<rparr>]"
  by (simp add: add_fragment_final_def lastTranscript_def)

lemma merged_runs_final_absorb:
  "merged_runs_final ((sp, t, fin) # fs) = absorb_final \<lparr>speaker = sp, text' = t, isFinal = fin\<rparr> fs"
  by (simp add: absorb_final_def)

lemma reconcile_final_snoc: "reconcile_final (pre @ [l]) fs = pre @ absorb_final l fs"
proof (induction fs arbitrary: pre l)
  case Nil
  show ?case by (simp add: absorb_final_def)
next
  case (Cons f fs)
  obtain sp t fin where f: "f = (sp, t, fin)" by (cases f)
  show ?case
  proof (cases "speaker l = sp \<and> \<not> isFinal l")
    case True
    have "reconcile_final (pre @ [l]) (f # fs) =
        reconcile_final (pre @ [l\<lparr>text' := text' l @ t, isFinal := fin\<rparr>]) fs"
      using True by (simp add: f add_fragment_final_snoc)
    also have "\<dots> = pre @ absorb_final (l\<lparr>text' := text' l @ t, isFinal := fin\<rparr>) fs"
      by (rule Cons.IH)
    also have "absorb_final (l\<lparr>text' := text' l @ t, isFinal := fin\<rparr>) fs = absorb_final l (f # fs)"
      using True by (simp add: absorb_final_def f)
    finally show ?thesis .
  next
    case False
    have "reconcile_final (pre @ [l]) (f # fs) =
        reconcile_final ((pre @ [l]) @ [\<lparr>speaker = sp, text' = t, isFinal = fin\<rparr>]) fs"
      using False by (auto simp: f add_fragment_final_snoc)
    also have "\<dots> = (pre @ [l]) @ absorb_final \<lparr>speaker = sp, text' = t, isFinal = fin\<rparr> fs"
      by (rule Cons.IH)
    also have "\<dots> = pre @ l # merged_runs_final (f # fs)"
      by (simp only: f merged_runs_final_absorb append_assoc append_Cons append_Nil)
    also have "l # merged_runs_final (f # fs) = absorb_final l (f # fs)"
      using False by (auto simp: absorb_final_def f)
    finally show ?thesis .
  qed
qed

lemma reconcile_final_merged_runs: "reconcile_final [] fs = merged_runs_final fs"
proof (cases fs)
  case Nil
  then show ?thesis by simp
next
  case (Cons f fs')
  obtain sp t fin where f: "f = (sp, t, fin)" by (cases f)
  have "reconcile_final [] fs =
      reconcile_final ([] @ [\<lparr>speaker = sp, text' = t, isFinal = fin\<rparr>]) fs'"
    by (simp add: Cons f add_fragment_final_Nil)
  also have "\<dots> = absorb_final \<lparr>speaker = sp, text' = t, isFinal = fin\<rparr> fs'"
    using reconcile_final_snoc [of "[]"] by simp
  finally have "reconcile_final [] fs = absorb_final \<lparr>speaker = sp, text' = t, isFinal = fin\<rparr> fs'" .
  then show ?thesis unfolding Cons f merged_runs_final_absorb .
qed

lemma on_transcription_final_reconcile:
  "on_transcription_final sp tr ls = reconcile_final ls (ffragment_of sp tr)"
  by (simp add: on_transcription_final_def ffragment_of_def split: option.splits)

lemma reconcile_final_append:
  "reconcile_final ls (fs @ gs) = reconcile_final (reconcile_final ls fs) gs"
  by (induction fs arbitrary: ls) auto

lemma onmessage_final_transcripts:
  "decodable m \<Longrightarrow>
     transcripts (onmessage_final now m s) = reconcile_final (transcripts s) (ffragments_of m)"
  by (cases "audio m"; cases "the (audio m)")
     (auto simp: onmessage_final_def on_audio_def decodable_def ffragments_of_def
         reconcile_final_append on_transcription_final_reconcile on_interrupted_def
         stop_each_transcripts schedule_buffer_def Let_def)

lemma run_messages_final_transcripts:
  "list_all (\<lambda>p. decodable (snd p)) ms \<Longrightarrow>
     transcripts (run_messages_final s ms) =
       reconcile_final (transcripts s) (concat (map (\<lambda>p. ffragments_of (snd p)) ms))"
  by (induction ms arbitrary: s) (auto simp: onmessage_final_transcripts reconcile_final_append)

text \<open>
  The second revision of \<open>index.tsx\<close> keeps the lines of the first revision of
  \<open>part_001\<close>: the calls of \<open>saveTranscript\<close> are all it adds.
\<close>

lemma on_transcription_saving_lines:
  "fst (on_transcription_saving sp tr st) = on_transcription_final sp tr (fst st)"
  using add_fragment_saving_lines [of sp _ _ "fst st" "snd st"]
  by (simp add: on_transcription_saving_def on_transcription_final_def split: option.splits)

lemma onmessage_saving_player:
  "fst (onmessage_saving now m st) = onmessage_final now m (fst st)"
  by (simp add: onmessage_saving_def onmessage_final_def Let_def on_transcription_saving_lines
      split: prod.splits bool.splits)

lemma run_messages_saving_player:
  "fst (run_messages_saving st ms) = run_messages_final (fst st) ms"
proof (induction ms arbitrary: st)
  case Nil
  show ?case by simp
next
  case (Cons p ms)
  obtain now m where p: "p = (now, m)" by (cases p)
  show ?case by (simp add: p Cons.IH onmessage_saving_player)
qed

text \<open>
  Claim C1, as the handler has it. A fragment reaches the transcript step when its text is
  truthy; a transcription without text or with the empty text is passed over. The audio
  branch comes first and is awaited: a message whose inline audio cannot be read or decoded
  ends the handler there, so the statement is about the messages whose audio, where
  present, decodes. Over such messages, from an empty transcript, the lines are the maximal
  runs of consecutive fragments of one speaker, each run concatenated; in the revisions
  with \<open>isFinal\<close> a run also ends after a final fragment and the line carries the flag of
  the last fragment of its run. Step by step: a fragment goes to the last line when that
  line has the fragment's speaker (and, in the revisions with \<open>isFinal\<close>, is not final),
  and opens a new line otherwise.
\<close>

theorem transcript_reconciliation:
  "(list_all (\<lambda>p. decodable (snd p)) ms \<and> transcripts s = [] \<longrightarrow>
      transcripts (run_messages s ms) =
        merged_runs (concat (map (\<lambda>p. fragments_of (snd p)) ms))) \<and>
   (list_all (\<lambda>p. decodable (snd p)) ms \<and> transcripts fs = [] \<longrightarrow>
      transcripts (run_messages_final fs ms) =
        merged_runs_final (concat (map (\<lambda>p. ffragments_of (snd p)) ms)) \<and>
      transcripts (fst (run_messages_saving (fs, saves) ms)) =
        merged_runs_final (concat (map (\<lambda>p. ffragments_of (snd p)) ms))) \<and>
   add_fragment sp t ls =
     (if ls \<noteq> [] \<and> speaker (last ls) = sp
      then butlast ls @ [(last ls)\<lparr>text' := text' (last ls) @ t\<rparr>]
      else ls @ [\<lparr>speaker = sp, text' = t\<rparr>]) \<and>
   add_fragment_final sp t fin fls =
     (if fls \<noteq> [] \<and> speaker (last fls) = sp \<and> \<not> isFinal (last fls)
      then butlast fls @ [(last fls)\<lparr>text' := text' (last fls) @ t, isFinal := fin\<rparr>]
      else fls @ [\<lparr>speaker = sp, text' = t, isFinal = fin\<rparr>]) \<and>
   fst (add_fragment_saving sp t fin (fls, saves)) = add_fragment_final sp t fin fls \<and>
   (\<not> truthy (t_text tr) \<longrightarrow>
      on_transcription sp (Some tr) ls = ls \<and> on_transcription_final sp (Some tr) fls = fls \<and>
      on_transcription_saving sp (Some tr) (fls, saves) = (fls, saves))"
proof (intro conjI impI)
  assume "list_all (\<lambda>p. decodable (snd p)) ms \<and> transcripts s = []"
  then show "transcripts (run_messages s ms) =
      merged_runs (concat (map (\<lambda>p. fragments_of (snd p)) ms))"
    by (simp add: run_messages_transcripts reconcile_merged_runs)
next
  assume "list_all (\<lambda>p. decodable (snd p)) ms \<and> transcripts fs = []"
  then show "transcripts (run_messages_final fs ms) =
      merged_runs_final (concat (map (\<lambda>p. ffragments_of (snd p)) ms))"
    by (simp add: run_messages_final_transcripts reconcile_final_merged_runs)
next
  assume "list_all (\<lambda>p. decodable (snd p)) ms \<and> transcripts fs = []"
  then show "transcripts (fst (run_messages_saving (fs, saves) ms)) =
      merged_runs_final (concat (map (\<lambda>p. ffragments_of (snd p)) ms))"
    by (simp add: run_messages_saving_player run_messages_final_transcripts
        reconcile_final_merged_runs)
next
  assume "\<not> truthy (t_text tr)"
  then show "on_transcription sp (Some tr) ls = ls"
    by (simp add: on_transcription_def)
next
  assume "\<not> truthy (t_text tr)"
  then show "on_transcription_final sp (Some tr) fls = fls"
    by (simp add: on_transcription_final_def)
next
  assume "\<not> truthy (t_text tr)"
  then show "on_transcription_saving sp (Some tr) (fls, saves) = (fls, saves)"
    by (simp add: on_transcription_saving_def)
qed (rule add_fragment_last add_fragment_final_last add_fragment_saving_lines)+

lemma hello_fragments:
  "concat (map (\<lambda>p. fragments_of (snd p)) hello_messages) =
     [(Candidate, ''Hel''), (Candidate, ''lo''), (Examiner, ''Hi'')]"
  by (simp add: hello_messages_def silent_def fragment_def fragments_of_def fragment_of_def
      truthy_def)

lemma final_fragments:
  "concat (map (\<lambda>p. ffragments_of (snd p)) final_messages) =
     [(Candidate, ''Hel'', False), (Candidate, ''lo'', True), (Candidate, ''Bye'', False),
      (Examiner, ''Hi'', False)]"
  by (simp add: final_messages_def silent_def fragment_def final_fragment_def ffragments_of_def
      ffragment_of_def truthy_def is_final_def)

theorem transcript_reconciliation_witness:
  "list_all (\<lambda>p. decodable (snd p)) hello_messages \<and>
   transcripts initial_app = [] \<and>
   transcripts (run_messages initial_app hello_messages) =
     [\<lparr>speaker = Candidate, text' = ''Hello''\<rparr>, \<lparr>speaker = Examiner, text' = ''Hi''\<rparr>] \<and>
   list_all (\<lambda>p. decodable (snd p)) final_messages \<and>
   transcripts initial_player = [] \<and>
   transcripts (run_messages_final initial_player final_messages) =
     [\<lparr>speaker = Candidate, text' = ''Hello'', isFinal = True\<rparr>,
      \<lparr>speaker = Candidate, text' = ''Bye'', isFinal = False\<rparr>,
      \<lparr>speaker = Examiner, text' = ''Hi'', isFinal = False\<rparr>] \<and>
   transcripts (fst (run_messages_saving (initial_player, []) final_messages)) =
     [\<lparr>speaker = Candidate, text' = ''Hello'', isFinal = True\<rparr>,
      \<lparr>speaker = Candidate, text' = ''Bye'', isFinal = False\<rparr>,
      \<lparr>speaker = Examiner, text' = ''Hi'', isFinal = False\<rparr>] \<and>
   \<not> truthy (t_text (fragment [])) \<and>
   on_transcription Examiner (Some (fragment [])) [\<lparr>speaker = Candidate, text' = ''Hi''\<rparr>] =
     [\<lparr>speaker = Candidate, text' = ''Hi''\<rparr>] \<and>
   on_transcription_final Candidate (Some (fragment []))
       [\<lparr>speaker = Candidate, text' = ''Hi'', isFinal = True\<rparr>] =
     [\<lparr>speaker = Candidate, text' = ''Hi'', isFinal = True\<rparr>]"
proof -
  have d: "list_all (\<lambda>p. decodable (snd p)) hello_messages"
    by (simp add: hello_messages_def silent_def decodable_def)
  have e: "transcripts initial_app = []"
    by (simp add: initial_app_def)
  have d': "list_all (\<lambda>p. decodable (snd p)) final_messages"
    by (simp add: final_messages_def silent_def decodable_def)
  have e': "transcripts initial_player = []"
    by (simp add: initial_player_def)
  have t: "\<not> truthy (t_text (fragment []))"
    by (simp add: fragment_def truthy_def)
  from transcript_reconciliation
    [of hello_messages initial_app initial_player "[]" Examiner "[]"
        "[\<lparr>speaker = Candidate, text' = ''Hi''\<rparr>]"
        False "[\<lparr>speaker = Candidate, text' = ''Hi'', isFinal = True\<rparr>]" "fragment []"]
    d e t
  have "transcripts (run_messages initial_app hello_messages) =
      merged_runs (concat (map (\<lambda>p. fragments_of (snd p)) hello_messages))"
    and "on_transcription Examiner (Some (fragment [])) [\<lparr>speaker = Candidate, text' = ''Hi''\<rparr>] =
      [\<lparr>speaker = Candidate, text' = ''Hi''\<rparr>]"
    by blast+
  moreover from transcript_reconciliation
    [of final_messages initial_app initial_player "[]" Candidate "[]" "[]"
        False "[\<lparr>speaker = Candidate, text' = ''Hi'', isFinal = True\<rparr>]" "fragment []"]
    d' e' t
  have "transcripts (run_messages_final initial_player final_messages) =
      merged_runs_final (concat (map (\<lambda>p. ffragments_of (snd p)) final_messages))"
    and "transcripts (fst (run_messages_saving (initial_player, []) final_messages)) =
      merged_runs_final (concat (map (\<lambda>p. ffragments_of (snd p)) final_messages))"
    and "on_transcription_final Candidate (Some (fragment []))
       [\<lparr>speaker = Candidate, text' = ''Hi'', isFinal = True\<rparr>] =
     [\<lparr>speaker = Candidate, text' = ''Hi'', isFinal = True\<rparr>]"
    by blast+
  ultimately show ?thesis
    using d e d' e' t by (simp add: hello_fragments final_fragments)
qed

text \<open>
  The claim as the specification states it, for every sequence of fragments, fails twice.
  A fragment with the empty text: after a line of the candidate, an examiner fragment with
  the text \<open>''\<close> has the other speaker and yet opens no line. A fragment in a message
  whose audio does not decode: the handler ends in its audio branch and the fragment never
  reaches the transcript.
\<close>

lemma empty_text_run:
  "transcripts (run_messages initial_app empty_text_messages) =
     [\<lparr>speaker = Candidate, text' = ''Hi''\<rparr>]"
  by (simp add: empty_text_messages_def silent_def fragment_def onmessage_def on_audio_def
      on_transcription_def truthy_def add_fragment_def lastTranscript_def on_interrupted_def
      initial_app_def)

lemma undecodable_run:
  "transcripts (run_messages initial_app undecodable_messages) = []"
  by (simp add: undecodable_messages_def silent_def onmessage_def on_audio_def initial_app_def)

lemma undecodable_fragments:
  "concat (map (\<lambda>p. fragments_of (snd p)) undecodable_messages) = [(Candidate, ''Hi'')]"
  by (simp add: undecodable_messages_def silent_def fragment_def fragments_of_def
      fragment_of_def truthy_def)

theorem transcript_reconciliation_counterexample:
  "transcripts (run_messages initial_app empty_text_messages) =
     [\<lparr>speaker = Candidate, text' = ''Hi''\<rparr>] \<and>
   merged_runs [(Candidate, ''Hi''), (Examiner, [])] =
     [\<lparr>speaker = Candidate, text' = ''Hi''\<rparr>, \<lparr>speaker = Examiner, text' = []\<rparr>] \<and>
   transcripts (run_messages initial_app empty_text_messages) \<noteq>
     merged_runs [(Candidate, ''Hi''), (Examiner, [])] \<and>
   transcripts (run_messages initial_app undecodable_messages) = [] \<and>
   merged_runs (concat (map (\<lambda>p. fragments_of (snd p)) undecodable_messages)) =
     [\<lparr>speaker = Candidate, text' = ''Hi''\<rparr>] \<and>
   transcripts (run_messages initial_app undecodable_messages) \<noteq>
     merged_runs (concat (map (\<lambda>p. fragments_of (snd p)) undecodable_messages))"
  by (simp add: empty_text_run undecodable_run undecodable_fragments)

subsection \<open>Audio scheduling\<close>

lemma schedule_buffer_simps:
  "nextStartTime (schedule_buffer now d s) = max (nextStartTime s) now + d"
  "started (schedule_buffer now d s) = started s @ [(fresh s, max (nextStartTime s) now)]"
  "fresh (schedule_buffer now d s) = Suc (fresh s)"
  "sources (schedule_buffer now d s) = set_add (fresh s) (sources s)"
  "stopped (schedule_buffer now d s) = stopped s"
  "transcripts (schedule_buffer now d s) = transcripts s"
  by (simp_all add: schedule_buffer_def Let_def)

lemma started_play:
  "map snd (started (play s xs)) = map snd (started s) @ slots (nextStartTime s) xs"
  by (induction xs arbitrary: s) (auto simp: schedule_buffer_simps)

lemma length_started_play: "length (started (play s xs)) = length (started s) + length xs"
  by (induction xs arbitrary: s) (auto simp: schedule_buffer_simps)

lemma start_times_slots: "start_times s xs = slots (nextStartTime s) xs"
proof -
  have "start_times s xs = drop (length (started s)) (map snd (started (play s xs)))"
    by (simp add: start_times_def drop_map)
  then show ?thesis by (simp add: started_play)
qed

lemma keeps_pace_on_time: "keeps_pace s xs = on_time (nextStartTime s) xs"
  by (induction xs arbitrary: s) (auto simp: schedule_buffer_simps max_def)

lemma length_slots: "length (slots t xs) = length xs"
  by (induction xs arbitrary: t) auto

lemma slots_not_past: "i < length xs \<Longrightarrow> fst (xs ! i) \<le> slots t xs ! i"
proof (induction xs arbitrary: t i)
  case Nil
  then show ?case by simp
next
  case (Cons x xs)
  obtain now d where x: "x = (now, d)" by (cases x)
  show ?case using Cons by (cases i) (auto simp: x)
qed

lemma slots_next: "Suc i < length xs \<Longrightarrow> slots t xs ! i + snd (xs ! i) \<le> slots t xs ! Suc i"
proof (induction xs arbitrary: t i)
  case Nil
  then show ?case by simp
next
  case (Cons x xs)
  obtain now d where x: "x = (now, d)" by (cases x)
  show ?case
  proof (cases i)
    case 0
    with Cons.prems obtain y ys where xs: "xs = y # ys" by (cases xs) auto
    obtain now' d' where y: "y = (now', d')" by (cases y)
    show ?thesis by (simp add: 0 x xs y)
  next
    case (Suc k)
    with Cons show ?thesis by (simp add: x)
  qed
qed

lemma slots_chain:
  "on_time t xs \<Longrightarrow> Suc i < length xs \<Longrightarrow> slots t xs ! Suc i = slots t xs ! i + snd (xs ! i)"
proof (induction xs arbitrary: t i)
  case Nil
  then show ?case by simp
next
  case (Cons x xs)
  obtain now d where x: "x = (now, d)" by (cases x)
  show ?case
  proof (cases i)
    case 0
    with Cons.prems obtain y ys where xs: "xs = y # ys" by (cases xs) auto
    obtain now' d' where y: "y = (now', d')" by (cases y)
    show ?thesis using Cons.prems(1) by (simp add: 0 x xs y max_def)
  next
    case (Suc k)
    have "max t now = t" using Cons.prems(1) by (simp add: x)
    then have "on_time (max t now + d) xs" using Cons.prems(1) by (simp add: x)
    with Cons Suc show ?thesis by (simp add: x)
  qed
qed

lemma slots_first: "on_time t xs \<Longrightarrow> xs \<noteq> [] \<Longrightarrow> slots t xs ! 0 = t"
  by (cases xs) (auto simp: max_def)

lemma slots_lower: "list_all (\<lambda>p. 0 \<le> snd p) xs \<Longrightarrow> j < length xs \<Longrightarrow> t \<le> slots t xs ! j"
proof (induction xs arbitrary: t j)
  case Nil
  then show ?case by simp
next
  case (Cons x xs)
  obtain now d where x: "x = (now, d)" by (cases x)
  show ?case
  proof (cases j)
    case 0
    then show ?thesis by (simp add: x)
  next
    case (Suc k)
    have "max t now + d \<le> slots (max t now + d) xs ! k"
      using Cons Suc by simp
    moreover have "0 \<le> d" using Cons.prems(1) by (simp add: x)
    ultimately show ?thesis by (simp add: x Suc)
  qed
qed

lemma slots_disjoint:
  "list_all (\<lambda>p. 0 \<le> snd p) xs \<Longrightarrow> i < j \<Longrightarrow> j < length xs \<Longrightarrow>
     slots t xs ! i + snd (xs ! i) \<le> slots t xs ! j"
proof (induction xs arbitrary: t i j)
  case Nil
  then show ?case by simp
next
  case (Cons x xs)
  obtain now d where x: "x = (now, d)" by (cases x)
  obtain k where j: "j = Suc k" using Cons.prems(2) by (cases j) auto
  have nn: "list_all (\<lambda>p. 0 \<le> snd p) xs" using Cons.prems(1) by simp
  have k: "k < length xs" using Cons.prems(3) j by simp
  show ?case
  proof (cases i)
    case 0
    have "max t now + d \<le> slots (max t now + d) xs ! k"
      by (rule slots_lower [OF nn k])
    then show ?thesis by (simp add: 0 j x)
  next
    case (Suc i')
    have "i' < k" using Cons.prems(2) Suc j by simp
    from Cons.IH [OF nn this k] show ?thesis by (simp add: Suc j x)
  qed
qed

text \<open>
  Claim C2. A decoded buffer is started at the maximum of \<open>nextStartTime\<close> and the
  output clock, and \<open>nextStartTime\<close> becomes that start plus the duration. Over a
  sequence of buffers no start lies before the clock of its arrival, and each buffer starts
  no earlier than the end of the one before; when the scheduler keeps pace the first buffer
  starts at \<open>nextStartTime\<close> and each later one exactly at the end of the one before; with
  durations that are not negative no two playback intervals overlap.
\<close>

theorem audio_schedule:
  "started (schedule_buffer now d s) = started s @ [(fresh s, max (nextStartTime s) now)] \<and>
   nextStartTime (schedule_buffer now d s) = max (nextStartTime s) now + d \<and>
   length (start_times s xs) = length xs \<and>
   (\<forall>i. i < length xs \<longrightarrow> fst (xs ! i) \<le> start_times s xs ! i) \<and>
   (\<forall>i. Suc i < length xs \<longrightarrow>
      start_times s xs ! i + snd (xs ! i) \<le> start_times s xs ! Suc i) \<and>
   (keeps_pace s xs \<longrightarrow>
      (xs \<noteq> [] \<longrightarrow> start_times s xs ! 0 = nextStartTime s) \<and>
      (\<forall>i. Suc i < length xs \<longrightarrow>
         start_times s xs ! Suc i = start_times s xs ! i + snd (xs ! i))) \<and>
   (nonnegative xs \<longrightarrow>
      (\<forall>i j. i < j \<and> j < length xs \<longrightarrow>
         start_times s xs ! i + snd (xs ! i) \<le> start_times s xs ! j))"
  by (simp add: schedule_buffer_simps start_times_slots length_slots slots_not_past slots_next
      keeps_pace_on_time slots_chain slots_first nonnegative_def slots_disjoint)

lemma three_buffers_times: "start_times late_player three_buffers = [1, 3, 4]"
  by (simp add: start_times_slots three_buffers_def late_player_def)

theorem audio_schedule_witness:
  "keeps_pace late_player three_buffers \<and> nonnegative three_buffers \<and>
   start_times late_player three_buffers = [1, 3, 4] \<and>
   length (start_times late_player three_buffers) = 3 \<and>
   fst (three_buffers ! 2) \<le> start_times late_player three_buffers ! 2 \<and>
   start_times late_player three_buffers ! 0 = nextStartTime late_player \<and>
   start_times late_player three_buffers ! 2 =
     start_times late_player three_buffers ! 1 + snd (three_buffers ! 1) \<and>
   start_times late_player three_buffers ! 0 + snd (three_buffers ! 0)
     \<le> start_times late_player three_buffers ! 2"
proof -
  have k: "keeps_pace late_player three_buffers"
    by (simp add: three_buffers_def late_player_def schedule_buffer_simps)
  have n: "nonnegative three_buffers"
    by (simp add: three_buffers_def nonnegative_def)
  have l: "length three_buffers = 3" "three_buffers \<noteq> []"
    by (simp_all add: three_buffers_def)
  note sched = audio_schedule [of 0 0 late_player three_buffers]
  from sched l have a: "fst (three_buffers ! 2) \<le> start_times late_player three_buffers ! 2"
    by simp
  from sched k l have b: "start_times late_player three_buffers ! 0 = nextStartTime late_player"
    and c: "start_times late_player three_buffers ! Suc 1 =
       start_times late_player three_buffers ! 1 + snd (three_buffers ! 1)"
    by simp_all
  from sched n have "\<forall>i j. i < j \<and> j < length three_buffers \<longrightarrow>
      start_times late_player three_buffers ! i + snd (three_buffers ! i)
        \<le> start_times late_player three_buffers ! j"
    by blast
  then have "0 < (2::nat) \<and> 2 < length three_buffers \<longrightarrow>
      start_times late_player three_buffers ! 0 + snd (three_buffers ! 0)
        \<le> start_times late_player three_buffers ! 2"
    by blast
  with l have d: "start_times late_player three_buffers ! 0 + snd (three_buffers ! 0)
      \<le> start_times late_player three_buffers ! 2"
    by simp
  show ?thesis
    using k n a b c d by (simp add: three_buffers_times)
qed

subsection \<open>Interruption\<close>

lemma stop_each_sources:
  "sources (stop_each xs s) = filter (\<lambda>x. x \<notin> set xs) (sources s)"
  by (induction xs arbitrary: s) (auto simp: set_delete_def removeAll_filter_not_eq intro: filter_cong)

lemma stop_each_stopped: "stopped (stop_each xs s) = stopped s @ xs"
  by (induction xs arbitrary: s) auto

lemma stop_each_others:
  "started (stop_each xs s) = started s" "fresh (stop_each xs s) = fresh s"
  "nextStartTime (stop_each xs s) = nextStartTime s" "transcripts (stop_each xs s) = transcripts s"
  by (induction xs arbitrary: s) auto

lemma on_interrupted_simps:
  "sources (on_interrupted True s) = []"
  "stopped (on_interrupted True s) = stopped s @ sources s"
  "nextStartTime (on_interrupted True s) = 0"
  "started (on_interrupted True s) = started s"
  "fresh (on_interrupted True s) = fresh s"
  "transcripts (on_interrupted True s) = transcripts s"
  by (simp_all add: on_interrupted_def stop_each_sources stop_each_stopped stop_each_others)

text \<open>
  Claim C3. The interruption branch stops every source of the active set, in the order of
  the set, leaves the set empty and sets \<open>nextStartTime\<close> to 0; the next buffer, arriving
  at a clock that is not negative, starts at that clock. For the whole handler: a message
  with the flag (and audio that decodes, if any) ends with an empty set, \<open>nextStartTime\<close>
  0, and every source that was active stopped.
\<close>

theorem interruption_resets:
  "sources (on_interrupted True s) = [] \<and>
   stopped (on_interrupted True s) = stopped s @ sources s \<and>
   nextStartTime (on_interrupted True s) = 0 \<and>
   (0 \<le> now \<longrightarrow>
      started (schedule_buffer now d (on_interrupted True s)) = started s @ [(fresh s, now)] \<and>
      nextStartTime (schedule_buffer now d (on_interrupted True s)) = now + d) \<and>
   (decodable m \<and> interrupted m \<longrightarrow>
      sources (onmessage now m p) = [] \<and>
      nextStartTime (onmessage now m p) = 0 \<and>
      set (sources p) \<subseteq> set (stopped (onmessage now m p)))"
proof (intro conjI impI)
  assume m: "decodable m \<and> interrupted m"
  define q where "q = fst (on_audio now (audio m) p)"
  define q' where "q' = q\<lparr>transcripts :=
      on_transcription Examiner (outputTranscription m)
        (on_transcription Candidate (inputTranscription m) (transcripts q))\<rparr>"
  have ok: "on_audio now (audio m) p = (q, True)"
    using m by (cases "audio m"; cases "the (audio m)") (auto simp: on_audio_def decodable_def q_def)
  have eq: "onmessage now m p = on_interrupted True q'"
    using m by (simp add: onmessage_def ok q'_def)
  show "sources (onmessage now m p) = []" by (simp add: eq on_interrupted_simps)
  show "nextStartTime (onmessage now m p) = 0" by (simp add: eq on_interrupted_simps)
  have "set (sources p) \<subseteq> set (sources q)"
    by (cases "audio m"; cases "the (audio m)")
       (auto simp: q_def on_audio_def schedule_buffer_simps set_add_def)
  moreover have "sources q' = sources q" "stopped q' = stopped q" by (simp_all add: q'_def)
  ultimately show "set (sources p) \<subseteq> set (stopped (onmessage now m p))"
    by (auto simp: eq on_interrupted_simps)
qed (simp_all add: on_interrupted_simps schedule_buffer_simps)

theorem interruption_resets_witness:
  "(0::real) \<le> 5 / 2 \<and>
   decodable (silent\<lparr>interrupted := True\<rparr>) \<and> interrupted (silent\<lparr>interrupted := True\<rparr>) \<and>
   sources (on_interrupted True playing_example) = [] \<and>
   stopped (on_interrupted True playing_example) = [3, 4] \<and>
   started (schedule_buffer (5 / 2) 1 (on_interrupted True playing_example)) =
     [(3, 8), (4, 9), (5, 5 / 2)] \<and>
   sources (onmessage (5 / 2) (silent\<lparr>interrupted := True\<rparr>) playing_example) = [] \<and>
   nextStartTime (onmessage (5 / 2) (silent\<lparr>interrupted := True\<rparr>) playing_example) = 0 \<and>
   {3, 4} \<subseteq> set (stopped (onmessage (5 / 2) (silent\<lparr>interrupted := True\<rparr>) playing_example))"
proof -
  have h: "decodable (silent\<lparr>interrupted := True\<rparr>) \<and> interrupted (silent\<lparr>interrupted := True\<rparr>)"
    by (simp add: silent_def decodable_def)
  have f: "sources playing_example = [3, 4]" "stopped playing_example = []"
    "started playing_example = [(3, 8), (4, 9)]" "fresh playing_example = 5"
    by (simp_all add: playing_example_def initial_app_def)
  show ?thesis
    using interruption_resets
      [of playing_example "5 / 2" 1 "silent\<lparr>interrupted := True\<rparr>" playing_example] h
    by (simp add: f)
qed

section \<open>Properties of the component\<close>

subsection \<open>The steps as updates\<close>

lemma finish_part2_eq:
  "finish_part2 s =
     s\<lparr>part2TopicForPart3 :=
         (if currentPart s = Some Part2 \<and> truthy (part2Topic s) then part2Topic s
          else part2TopicForPart3 s),
       part2State :=
         (if currentPart s = Some Part2 \<and> truthy (part2Topic s) then Finished else part2State s)\<rparr>"
  by (cases s) (simp add: finish_part2_def)

lemma clear_part_timer_eq:
  "clear_part_timer s =
     s\<lparr>part2TimerInterval := None,
       effects := effects s @ (case part2TimerInterval s of Some t \<Rightarrow> [ClearInterval t] | None \<Rightarrow> [])\<rparr>"
  by (cases s) (simp add: clear_part_timer_def emit_def split: option.split)

lemma clear_credit_timer_eq:
  "clear_credit_timer s =
     s\<lparr>creditUsageInterval := None,
       effects := effects s @ (case creditUsageInterval s of Some t \<Rightarrow> [ClearInterval t] | None \<Rightarrow> [])\<rparr>"
  by (cases s) (simp add: clear_credit_timer_def emit_def split: option.split)

lemma close_session_eq:
  "close_session s =
     s\<lparr>session := None,
       effects := effects s @ (case session s of Some t \<Rightarrow> [SessionClose t] | None \<Rightarrow> [])\<rparr>"
  by (cases s) (simp add: close_session_def emit_def split: option.split)

lemma disconnect_capture_eq:
  "disconnect_capture s =
     s\<lparr>effects := effects s @
         (if scriptProcessorNode s \<and> sourceNode s \<and> inputAudioContext s then [CaptureDisconnect]
          else [])\<rparr>"
  by (cases s) (simp add: disconnect_capture_def emit_def)

lemma release_media_eq:
  "release_media s =
     s\<lparr>mediaStream := None,
       effects := effects s @ (case mediaStream s of Some t \<Rightarrow> [TrackStop t] | None \<Rightarrow> [])\<rparr>"
  by (cases s) (simp add: release_media_def emit_def split: option.split)

lemma saveCurrentSessionHistory_eq:
  "saveCurrentSessionHistory w s =
     s\<lparr>chatHistory := save_history w s, effects := effects s @ save_effects w s\<rparr>"
  by (cases s)
     (simp add: saveCurrentSessionHistory_def save_history_def save_effects_def emit_def Let_def
        split: insert_result.split)

lemma save_and_review_eq:
  "save_and_review w s =
     s\<lparr>chatHistory := save_history w s,
       effects := effects s @ save_effects w s @
         (if transcripts s \<noteq> [] then [ProcessMissingFeedback] else [])\<rparr>"
  by (cases s)
     (auto simp: save_and_review_def saveCurrentSessionHistory_eq save_history_def save_effects_def emit_def)

lemma initSession_eq:
  "initSession w i m s =
     s\<lparr>session := (if client s then (case connected w of Some t \<Rightarrow> Some t | None \<Rightarrow> session s)
                   else session s),
       effects := effects s @
         (if client s
          then Connect i m # (case connected w of Some t \<Rightarrow> [] | None \<Rightarrow> [ConsoleError])
          else [])\<rparr>"
  by (cases s) (simp add: initSession_def emit_def split: option.split)

lemma initSession_index_eq:
  "initSession_index w s =
     s\<lparr>session := (if client s then (case connected w of Some t \<Rightarrow> Some t | None \<Rightarrow> session s)
                   else session s),
       effects := effects s @
         (if client s
          then Connect [] [AUDIO] # (case connected w of Some t \<Rightarrow> [] | None \<Rightarrow> [ConsoleError])
          else [])\<rparr>"
  by (cases s) (simp add: initSession_index_def emit_def split: option.split)

lemma begin_capture_eq:
  "begin_capture w s =
     s\<lparr>mediaStream := (case microphone w of Some t \<Rightarrow> Some t | None \<Rightarrow> mediaStream s),
       sourceNode := (microphone w \<noteq> None \<or> sourceNode s),
       scriptProcessorNode := (microphone w \<noteq> None \<or> scriptProcessorNode s),
       isRecording := (microphone w \<noteq> None \<or> isRecording s),
       effects := effects s @
         (case microphone w of Some t \<Rightarrow> [CaptureConnect] | None \<Rightarrow> [ConsoleError])\<rparr>"
  by (cases s) (simp add: begin_capture_def emit_def split: option.split)

lemmas step_eqs = finish_part2_eq clear_part_timer_eq clear_credit_timer_eq close_session_eq
  disconnect_capture_eq release_media_eq save_and_review_eq lower_flag_def forget_nodes_def
  initSession_eq initSession_index_eq begin_capture_eq start_credit_timer_def
  reset_for_session_def emit_def open_intro_def

lemma stopRecording_unfold:
  "isRecording s \<or> mediaStream s \<noteq> None \<or> inputAudioContext s \<Longrightarrow>
     stopRecording w s =
       release_media (forget_nodes (disconnect_capture (close_session (lower_flag
         (save_and_review w (clear_credit_timer (clear_part_timer (finish_part2 s))))))))"
  by (auto simp: stopRecording_def)

lemma stopRecording_fields:
  assumes "isRecording s \<or> mediaStream s \<noteq> None \<or> inputAudioContext s"
  shows "isRecording (stopRecording w s) = False"
    and "creditUsageInterval (stopRecording w s) = None"
    and "part2TimerInterval (stopRecording w s) = None"
    and "session (stopRecording w s) = None"
    and "mediaStream (stopRecording w s) = None"
    and "sourceNode (stopRecording w s) = False"
    and "scriptProcessorNode (stopRecording w s) = False"
    and "userCredits (stopRecording w s) = userCredits s"
    and "inputAudioContext (stopRecording w s) = inputAudioContext s"
    and "client (stopRecording w s) = client s"
    and "transcripts (stopRecording w s) = transcripts s"
    and "supabaseSession (stopRecording w s) = supabaseSession s"
    and "currentSessionId (stopRecording w s) = currentSessionId s"
    and "currentPart (stopRecording w s) = currentPart s"
    and "part2Topic (stopRecording w s) = part2Topic s"
    and "isOutOfCreditsModalOpen (stopRecording w s) = isOutOfCreditsModalOpen s"
    and "isIntroModalOpen (stopRecording w s) = isIntroModalOpen s"
    and "part2TopicForPart3 (stopRecording w s) =
           (if currentPart s = Some Part2 \<and> truthy (part2Topic s) then part2Topic s
            else part2TopicForPart3 s)"
    and "part2State (stopRecording w s) =
           (if currentPart s = Some Part2 \<and> truthy (part2Topic s) then Finished else part2State s)"
  by (simp_all add: stopRecording_unfold [OF assms] step_eqs)

lemma stopRecording_effects:
  assumes "isRecording s \<or> mediaStream s \<noteq> None \<or> inputAudioContext s"
  shows "effects (stopRecording w s) =
     effects s
       @ (case part2TimerInterval s of Some t \<Rightarrow> [ClearInterval t] | None \<Rightarrow> [])
       @ (case creditUsageInterval s of Some t \<Rightarrow> [ClearInterval t] | None \<Rightarrow> [])
       @ save_effects w s
       @ (if transcripts s \<noteq> [] then [ProcessMissingFeedback] else [])
       @ (case session s of Some t \<Rightarrow> [SessionClose t] | None \<Rightarrow> [])
       @ (if scriptProcessorNode s \<and> sourceNode s \<and> inputAudioContext s then [CaptureDisconnect]
          else [])
       @ (case mediaStream s of Some t \<Rightarrow> [TrackStop t] | None \<Rightarrow> [])"
  by (simp add: stopRecording_unfold [OF assms] step_eqs save_effects_def)

lemma stopRecording_appends: "\<exists>rest. effects (stopRecording w s) = effects s @ rest"
proof (cases "isRecording s \<or> mediaStream s \<noteq> None \<or> inputAudioContext s")
  case True
  show ?thesis by (subst stopRecording_effects [OF True]) blast
next
  case False
  then show ?thesis by (simp add: stopRecording_def)
qed

lemma send_insert_eq: "send_insert s = s\<lparr>effects := effects s @ insert_effects s\<rparr>"
  by (cases s) (simp add: send_insert_def insert_effects_def emit_def)

lemma settle_insert_eq:
  "settle_insert w sent s =
     s\<lparr>effects := effects s @
         (if sent then (case inserted w of InsertError \<Rightarrow> [ConsoleError] | InsertData rows \<Rightarrow> [])
          else [])\<rparr>"
  by (cases s) (simp add: settle_insert_def emit_def split: insert_result.split)

lemma stopRecording_index_unfold:
  "isRecording s \<or> mediaStream s \<noteq> None \<or> inputAudioContext s \<Longrightarrow>
     stopRecording_index w s =
       settle_insert w (save_sent s)
         (release_media (forget_nodes (disconnect_capture (close_session (lower_flag
           (send_insert s))))))"
  by (auto simp: stopRecording_index_def)

lemma stopRecording_index_effects:
  assumes "isRecording s \<or> mediaStream s \<noteq> None \<or> inputAudioContext s"
  shows "effects (stopRecording_index w s) =
     effects s @ insert_effects s
       @ (case session s of Some t \<Rightarrow> [SessionClose t] | None \<Rightarrow> [])
       @ (if scriptProcessorNode s \<and> sourceNode s \<and> inputAudioContext s then [CaptureDisconnect]
          else [])
       @ (case mediaStream s of Some t \<Rightarrow> [TrackStop t] | None \<Rightarrow> [])
       @ insert_error_log w s"
  by (auto simp: stopRecording_index_unfold [OF assms] send_insert_eq settle_insert_eq step_eqs
      save_sent_def insert_error_log_def)

lemma stopRecording_index_fields:
  assumes "isRecording s \<or> mediaStream s \<noteq> None \<or> inputAudioContext s"
  shows "isRecording (stopRecording_index w s) = False"
    and "session (stopRecording_index w s) = None"
    and "mediaStream (stopRecording_index w s) = None"
    and "sourceNode (stopRecording_index w s) = False"
    and "scriptProcessorNode (stopRecording_index w s) = False"
    and "inputAudioContext (stopRecording_index w s) = inputAudioContext s"
    and "transcripts (stopRecording_index w s) = transcripts s"
    and "supabaseSession (stopRecording_index w s) = supabaseSession s"
    and "currentSessionId (stopRecording_index w s) = currentSessionId s"
  by (simp_all add: stopRecording_index_unfold [OF assms] send_insert_eq settle_insert_eq
      step_eqs)

lemma stopCurrentSession_isRecording: "isRecording (stopCurrentSession w s) = False"
  by (simp add: stopCurrentSession_def stopRecording_fields)

subsection \<open>Credits\<close>

lemma recording_example_facts:
  "inputAudioContext recording_example"
  "effects recording_example = []"
  "transcripts recording_example = [\<lparr>speaker = Candidate, text' = ''Hello''\<rparr>]"
  "supabaseSession recording_example = Some ''user-1''"
  "currentSessionId recording_example = Some ''3f2a''"
  "session recording_example = Some 7"
  "mediaStream recording_example = Some 4"
  "sourceNode recording_example" "scriptProcessorNode recording_example"
  "creditUsageInterval recording_example = Some (Timer 11)"
  "part2TimerInterval recording_example = None"
  by (simp_all add: recording_example_def initial_app_def)

lemma deductCredits_guard:
  "\<not> isRecording s \<or> userCredits s = None \<Longrightarrow> deductCredits w s = s"
  by (auto simp: deductCredits_def)

text \<open>
  Claim C8. A tick of the credit timer while recording, with a known balance: when the
  decrement fails the tick only logs, so the balance, the flag, the session and the timer
  stay; when it returns a balance of zero or less the balance is stored, the recording is
  stopped (flag lowered, session closed, stream released, timer cleared) and the
  out-of-credits modal is opened; when it returns a positive balance only the balance
  changes.
\<close>

theorem credit_poll_tick:
  assumes "isRecording s" and "userCredits s \<noteq> None"
  shows "(rpc w = RpcError \<longrightarrow>
            deductCredits w s = s\<lparr>effects := effects s @ [RpcDeductCredits 10, ConsoleError]\<rparr>) \<and>
         (\<forall>d. rpc w = RpcData d \<and> d \<le> 0 \<longrightarrow>
            userCredits (deductCredits w s) = Some d \<and>
            isRecording (deductCredits w s) = False \<and>
            session (deductCredits w s) = None \<and>
            mediaStream (deductCredits w s) = None \<and>
            creditUsageInterval (deductCredits w s) = None \<and>
            isOutOfCreditsModalOpen (deductCredits w s) = True \<and>
            (\<forall>x. session s = Some x \<longrightarrow>
               SessionClose x \<in> set (drop (length (effects s)) (effects (deductCredits w s))))) \<and>
         (\<forall>d. rpc w = RpcData d \<and> 0 < d \<longrightarrow>
            deductCredits w s =
              s\<lparr>userCredits := Some d, effects := effects s @ [RpcDeductCredits 10]\<rparr>)"
proof (intro conjI impI allI)
  assume "rpc w = RpcError"
  with assms show "deductCredits w s = s\<lparr>effects := effects s @ [RpcDeductCredits 10, ConsoleError]\<rparr>"
    by (simp add: deductCredits_def emit_def creditUpdateIntervalMs_def)
next
  fix d assume "rpc w = RpcData d \<and> 0 < d"
  with assms show "deductCredits w s =
      s\<lparr>userCredits := Some d, effects := effects s @ [RpcDeductCredits 10]\<rparr>"
    by (cases s) (simp add: deductCredits_def emit_def creditUpdateIntervalMs_def)
next
  fix d assume d: "rpc w = RpcData d \<and> d \<le> 0"
  define s2 where "s2 = (emit [RpcDeductCredits 10] s)\<lparr>userCredits := Some d\<rparr>"
  have rec: "isRecording s2" using assms by (simp add: s2_def emit_def)
  then have g: "isRecording s2 \<or> mediaStream s2 \<noteq> None \<or> inputAudioContext s2" by simp
  have eq: "deductCredits w s = (stopRecording w s2)\<lparr>isOutOfCreditsModalOpen := True\<rparr>"
    using assms d
    by (auto simp: deductCredits_def creditUpdateIntervalMs_def s2_def Let_def emit_def
        stopCurrentSession_def)
  show "userCredits (deductCredits w s) = Some d"
    by (simp add: eq stopRecording_fields [OF g]) (simp add: s2_def)
  show "isRecording (deductCredits w s) = False"
    by (simp add: eq stopRecording_fields [OF g])
  show "session (deductCredits w s) = None"
    by (simp add: eq stopRecording_fields [OF g])
  show "mediaStream (deductCredits w s) = None"
    by (simp add: eq stopRecording_fields [OF g])
  show "creditUsageInterval (deductCredits w s) = None"
    by (simp add: eq stopRecording_fields [OF g])
  show "isOutOfCreditsModalOpen (deductCredits w s) = True"
    by (simp add: eq)
  fix x assume "session s = Some x"
  then have "session s2 = Some x" by (simp add: s2_def emit_def)
  moreover have "effects s2 = effects s @ [RpcDeductCredits 10]" by (simp add: s2_def emit_def)
  ultimately show "SessionClose x \<in> set (drop (length (effects s)) (effects (deductCredits w s)))"
    by (simp add: eq stopRecording_effects [OF g])
qed

lemma recording_example_more:
  "isRecording recording_example" "userCredits recording_example = Some 100"
  by (simp_all add: recording_example_def)

theorem credit_poll_tick_witness:
  "isRecording recording_example \<and> userCredits recording_example \<noteq> None \<and>
   rpc (calm_world\<lparr>rpc := RpcError\<rparr>) = RpcError \<and>
   userCredits (deductCredits (calm_world\<lparr>rpc := RpcError\<rparr>) recording_example) = Some 100 \<and>
   isRecording (deductCredits (calm_world\<lparr>rpc := RpcError\<rparr>) recording_example) \<and>
   session (deductCredits (calm_world\<lparr>rpc := RpcError\<rparr>) recording_example) = Some 7 \<and>
   effects (deductCredits (calm_world\<lparr>rpc := RpcError\<rparr>) recording_example) =
     [RpcDeductCredits 10, ConsoleError] \<and>
   rpc (calm_world\<lparr>rpc := RpcData 0\<rparr>) = RpcData 0 \<and> (0::int) \<le> 0 \<and>
   userCredits (deductCredits (calm_world\<lparr>rpc := RpcData 0\<rparr>) recording_example) = Some 0 \<and>
   isRecording (deductCredits (calm_world\<lparr>rpc := RpcData 0\<rparr>) recording_example) = False \<and>
   session (deductCredits (calm_world\<lparr>rpc := RpcData 0\<rparr>) recording_example) = None \<and>
   isOutOfCreditsModalOpen (deductCredits (calm_world\<lparr>rpc := RpcData 0\<rparr>) recording_example) \<and>
   SessionClose 7 \<in> set (effects (deductCredits (calm_world\<lparr>rpc := RpcData 0\<rparr>) recording_example)) \<and>
   rpc calm_world = RpcData 90 \<and> (0::int) < 90 \<and>
   userCredits (deductCredits calm_world recording_example) = Some 90 \<and>
   isRecording (deductCredits calm_world recording_example)"
proof -
  have h: "isRecording recording_example" "userCredits recording_example \<noteq> None"
    by (simp_all add: recording_example_more)
  have f: "session recording_example = Some 7" "effects recording_example = []"
    by (simp_all add: recording_example_facts)
  note t1 = credit_poll_tick [OF h, of "calm_world\<lparr>rpc := RpcError\<rparr>"]
  note t2 = credit_poll_tick [OF h, of "calm_world\<lparr>rpc := RpcData 0\<rparr>"]
  note t3 = credit_poll_tick [OF h, of calm_world]
  have r: "rpc calm_world = RpcData 90" by (simp add: calm_world_def)
  from t1 have a: "deductCredits (calm_world\<lparr>rpc := RpcError\<rparr>) recording_example =
      recording_example\<lparr>effects := effects recording_example @ [RpcDeductCredits 10, ConsoleError]\<rparr>"
    by simp
  from t2 have "rpc (calm_world\<lparr>rpc := RpcData 0\<rparr>) = RpcData 0 \<and> (0::int) \<le> 0 \<longrightarrow>
      userCredits (deductCredits (calm_world\<lparr>rpc := RpcData 0\<rparr>) recording_example) = Some 0 \<and>
      isRecording (deductCredits (calm_world\<lparr>rpc := RpcData 0\<rparr>) recording_example) = False \<and>
      session (deductCredits (calm_world\<lparr>rpc := RpcData 0\<rparr>) recording_example) = None \<and>
      isOutOfCreditsModalOpen (deductCredits (calm_world\<lparr>rpc := RpcData 0\<rparr>) recording_example) = True \<and>
      (\<forall>x. session recording_example = Some x \<longrightarrow>
         SessionClose x \<in> set (drop (length (effects recording_example))
           (effects (deductCredits (calm_world\<lparr>rpc := RpcData 0\<rparr>) recording_example))))"
    by blast
  then have b: "userCredits (deductCredits (calm_world\<lparr>rpc := RpcData 0\<rparr>) recording_example) = Some 0"
      "isRecording (deductCredits (calm_world\<lparr>rpc := RpcData 0\<rparr>) recording_example) = False"
      "session (deductCredits (calm_world\<lparr>rpc := RpcData 0\<rparr>) recording_example) = None"
      "isOutOfCreditsModalOpen (deductCredits (calm_world\<lparr>rpc := RpcData 0\<rparr>) recording_example)"
      "SessionClose 7 \<in> set (effects (deductCredits (calm_world\<lparr>rpc := RpcData 0\<rparr>) recording_example))"
    by (simp_all add: f)
  from t3 have "rpc calm_world = RpcData 90 \<and> (0::int) < 90 \<longrightarrow>
      deductCredits calm_world recording_example =
        recording_example\<lparr>userCredits := Some 90,
          effects := effects recording_example @ [RpcDeductCredits 10]\<rparr>"
    by blast
  with r have c: "deductCredits calm_world recording_example =
        recording_example\<lparr>userCredits := Some 90,
          effects := effects recording_example @ [RpcDeductCredits 10]\<rparr>"
    by simp
  show ?thesis
    by (simp add: a b c r h f recording_example_more)
qed

text \<open>
  Claim C10. \<open>deductCredits\<close> returns the state as it is, without the call of the
  decrement, when the flag is down or the balance unknown; \<open>stopRecording\<close> lowers the
  flag, clears the credit timer (the call \<open>clearInterval\<close> on the handle that was set),
  and a tick after it changes nothing.
\<close>

theorem credit_tick_after_stop:
  "(\<not> isRecording s \<or> userCredits s = None \<longrightarrow> deductCredits w s = s) \<and>
   (isRecording s \<or> mediaStream s \<noteq> None \<or> inputAudioContext s \<longrightarrow>
      isRecording (stopRecording w s) = False \<and>
      creditUsageInterval (stopRecording w s) = None \<and>
      (\<forall>t. creditUsageInterval s = Some t \<longrightarrow>
         ClearInterval t \<in> set (drop (length (effects s)) (effects (stopRecording w s)))) \<and>
      deductCredits w' (stopRecording w s) = stopRecording w s)"
proof (intro conjI impI allI)
  assume "\<not> isRecording s \<or> userCredits s = None"
  then show "deductCredits w s = s" by (rule deductCredits_guard)
next
  assume g: "isRecording s \<or> mediaStream s \<noteq> None \<or> inputAudioContext s"
  show "isRecording (stopRecording w s) = False" by (rule stopRecording_fields(1) [OF g])
  show "creditUsageInterval (stopRecording w s) = None" by (rule stopRecording_fields(2) [OF g])
  show "deductCredits w' (stopRecording w s) = stopRecording w s"
    by (rule deductCredits_guard) (simp add: stopRecording_fields(1) [OF g])
  fix t assume "creditUsageInterval s = Some t"
  then show "ClearInterval t \<in> set (drop (length (effects s)) (effects (stopRecording w s)))"
    by (simp add: stopRecording_effects [OF g])
qed

theorem credit_tick_after_stop_witness:
  "\<not> isRecording initial_app \<and> deductCredits calm_world initial_app = initial_app \<and>
   isRecording recording_example \<and>
   creditUsageInterval recording_example = Some (Timer 11) \<and>
   isRecording (stopRecording calm_world recording_example) = False \<and>
   creditUsageInterval (stopRecording calm_world recording_example) = None \<and>
   ClearInterval (Timer 11) \<in> set (effects (stopRecording calm_world recording_example)) \<and>
   deductCredits calm_world (stopRecording calm_world recording_example) =
     stopRecording calm_world recording_example"
proof -
  have i: "\<not> isRecording initial_app" by (simp add: initial_app_def)
  have h: "isRecording recording_example" by (simp add: recording_example_more)
  have f: "creditUsageInterval recording_example = Some (Timer 11)"
    "effects recording_example = []"
    by (simp_all add: recording_example_facts)
  from credit_tick_after_stop [of initial_app calm_world] i
  have a: "deductCredits calm_world initial_app = initial_app" by blast
  from credit_tick_after_stop [of recording_example calm_world calm_world] h
  have b: "isRecording (stopRecording calm_world recording_example) = False"
    "creditUsageInterval (stopRecording calm_world recording_example) = None"
    "\<forall>t. creditUsageInterval recording_example = Some t \<longrightarrow>
       ClearInterval t \<in> set (drop (length (effects recording_example))
         (effects (stopRecording calm_world recording_example)))"
    "deductCredits calm_world (stopRecording calm_world recording_example) =
       stopRecording calm_world recording_example"
    by blast+
  from b(3) f have c: "ClearInterval (Timer 11) \<in> set (effects (stopRecording calm_world recording_example))"
    by simp
  show ?thesis using i h f a b(1,2,4) c by simp
qed

subsection \<open>Starting without a session\<close>

text \<open>
  Claim C9. When no session object exists after \<open>initSession\<close> (there was none, and the
  client is missing or the connection throws), \<open>startRecording\<close> returns with the
  transcript cleared and the new session id set and nothing else changed but the log: the
  flag stays down, no stream and no capture node is made, \<open>getUserMedia\<close> is not called.
  In the revision with credits this is behind the credit gate.
\<close>

theorem startRecording_without_session:
  assumes "\<not> isRecording s" and "session s = None" and "\<not> client s \<or> connected w = None"
  shows "(\<not> out_of_credits s \<longrightarrow>
            startRecording w i m s =
              s\<lparr>transcripts := [], currentSessionId := Some (uuid w),
                effects := effects s @ (if client s then [Connect i m, ConsoleError] else [])
                             @ [ConsoleError]\<rparr>) \<and>
         startRecording_index w s =
           s\<lparr>transcripts := [], currentSessionId := Some (uuid w),
             effects := effects s @ (if client s then [Connect [] [AUDIO], ConsoleError] else [])
                          @ [ConsoleError]\<rparr>"
  using assms
  by (cases s) 
     (auto simp: startRecording_def startRecording_index_def Let_def step_eqs)

theorem startRecording_without_session_witness:
  "\<not> isRecording signed_in_example \<and> session signed_in_example = None \<and>
   connected offline_world = None \<and> \<not> out_of_credits signed_in_example \<and>
   startRecording offline_world PART1_INSTRUCTION [AUDIO] signed_in_example =
     signed_in_example
       \<lparr>transcripts := [], currentSessionId := Some ''3f2a'',
        effects := [Connect PART1_INSTRUCTION [AUDIO], ConsoleError, ConsoleError]\<rparr> \<and>
   isRecording (startRecording offline_world PART1_INSTRUCTION [AUDIO] signed_in_example) = False \<and>
   mediaStream (startRecording offline_world PART1_INSTRUCTION [AUDIO] signed_in_example) = None \<and>
   startRecording_index offline_world signed_in_example =
     signed_in_example
       \<lparr>transcripts := [], currentSessionId := Some ''3f2a'',
        effects := [Connect [] [AUDIO], ConsoleError, ConsoleError]\<rparr>"
proof -
  have h: "\<not> isRecording signed_in_example" "session signed_in_example = None"
    "\<not> client signed_in_example \<or> connected offline_world = None"
    by (simp_all add: signed_in_example_def initial_app_def offline_world_def)
  have o: "\<not> out_of_credits signed_in_example"
    by (simp add: signed_in_example_def out_of_credits_def)
  have f: "client signed_in_example" "effects signed_in_example = []" "uuid offline_world = ''3f2a''"
    "mediaStream signed_in_example = None"
    by (simp_all add: signed_in_example_def initial_app_def offline_world_def calm_world_def)
  from startRecording_without_session [OF h, of PART1_INSTRUCTION "[AUDIO]"] o
  have a: "startRecording offline_world PART1_INSTRUCTION [AUDIO] signed_in_example =
     signed_in_example
       \<lparr>transcripts := [], currentSessionId := Some ''3f2a'',
        effects := [Connect PART1_INSTRUCTION [AUDIO], ConsoleError, ConsoleError]\<rparr>"
    and b: "startRecording_index offline_world signed_in_example =
     signed_in_example
       \<lparr>transcripts := [], currentSessionId := Some ''3f2a'',
        effects := [Connect [] [AUDIO], ConsoleError, ConsoleError]\<rparr>"
    by (simp_all add: f)
  show ?thesis
    using h(1,2) o by (simp add: a b f) (simp add: offline_world_def)
qed

subsection \<open>Selecting Part 3\<close>

lemma handlePartSelect_part3:
  "handlePartSelect w Part3 s =
     (let s0 = stopCurrentSession w s
      in if out_of_credits s0 then s0\<lparr>isOutOfCreditsModalOpen := True\<rparr>
         else if truthy (part2TopicForPart3 s0) then open_intro part3_intro (reset_part Part3 s0)
         else (reset_part Part3 s0)\<lparr>transcripts := [part3_refusal]\<rparr>)"
  by (simp add: handlePartSelect_def Let_def reset_part_def)

lemma handleStartPart_part3:
  assumes "currentPart s = Some Part3"
  shows "handleStartPart w s =
     (if truthy (part2TopicForPart3 s)
      then startRecording w (PART3_INSTRUCTION_TEMPLATE (the (part2TopicForPart3 s))) [AUDIO]
             (s\<lparr>isIntroModalOpen := False\<rparr>)
      else s\<lparr>isIntroModalOpen := False\<rparr>)"
  using assms by (simp add: handleStartPart_def Let_def)

lemma startRecording_effects_begin:
  assumes "\<not> out_of_credits s" and "\<not> isRecording s" and "client s"
  shows "\<exists>rest. effects (startRecording w i m s) = effects s @ Connect i m # rest"
proof -
  define s2 where "s2 = initSession w i m (reset_for_session w s)"
  define s3 where "s3 = begin_capture w (emit [ResumeInput, GetUserMedia] s2)"
  obtain c where e2: "effects s2 = effects s @ Connect i m # c"
    using assms(3) by (simp add: s2_def step_eqs)
  obtain c3 where e3: "effects s3 = effects s2 @ c3"
    by (simp add: s3_def step_eqs)
  have unfold: "startRecording w i m s =
      (if session s2 = None then emit [ConsoleError] s2
       else if microphone w = None then stopRecording w s3 else start_credit_timer w s3)"
    using assms(1,2) by (simp add: startRecording_def Let_def s2_def s3_def)
  consider "session s2 = None" | "session s2 \<noteq> None" "microphone w = None"
    | "session s2 \<noteq> None" "microphone w \<noteq> None" by blast
  then show ?thesis
  proof cases
    case 1
    then have "effects (startRecording w i m s) = effects s @ Connect i m # (c @ [ConsoleError])"
      by (simp add: unfold emit_def e2)
    then show ?thesis by blast
  next
    case 2
    obtain r where "effects (stopRecording w s3) = effects s3 @ r"
      using stopRecording_appends by blast
    with 2 have "effects (startRecording w i m s) = effects s @ Connect i m # (c @ c3 @ r)"
      by (auto simp: unfold e2 e3)
    then show ?thesis by blast
  next
    case 3
    then have "effects (startRecording w i m s) =
        effects s @ Connect i m # (c @ c3 @ [SetInterval (credit_timer w)])"
      by (auto simp: unfold start_credit_timer_def emit_def e2 e3)
    then show ?thesis by blast
  qed
qed

lemma startRecording_success:
  assumes "\<not> out_of_credits s" and "\<not> isRecording s" and "client s"
    and "connected w = Some x" and "microphone w = Some mm"
  shows "startRecording w i m s =
     s\<lparr>transcripts := [], currentSessionId := Some (uuid w), session := Some x,
       mediaStream := Some mm, sourceNode := True, scriptProcessorNode := True,
       isRecording := True, creditUsageInterval := Some (credit_timer w),
       effects := effects s @ [Connect i m, ResumeInput, GetUserMedia, CaptureConnect,
                               SetInterval (credit_timer w)]\<rparr>"
  using assms by (cases s) (simp add: startRecording_def Let_def step_eqs)

text \<open>
  The selection of Part 3 on every state. It first stops a running session. Behind the
  credit gate and without a carried-forward topic the transcript becomes the single
  examiner line and no intro modal opens; with a carried-forward topic the intro modal of
  Part 3 opens, and starting the part connects with the Part 3 instruction built from that
  topic. Stopping a recording of Part 2 that has a topic is what carries the topic forward
  and sets the state to \<open>Finished\<close>.
\<close>

lemma handlePartSelect_part3_outcomes:
  "(let s0 = stopCurrentSession w s; s1 = handlePartSelect w Part3 s
    in (\<not> out_of_credits s0 \<and> \<not> truthy (part2TopicForPart3 s0) \<longrightarrow>
          s1 = s0\<lparr>currentPart := Some Part3, transcripts := [part3_refusal], part2CueCard := None,
                  part2Topic := None, part2State := Idle, part2PreparationTimeLeft := 60,
                  part2SpeakingTimeLeft := 120\<rparr> \<and>
          handleStartPart w' s1 = s1\<lparr>isIntroModalOpen := False\<rparr>) \<and>
       (\<not> out_of_credits s0 \<and> truthy (part2TopicForPart3 s0) \<longrightarrow>
          s1 = s0\<lparr>currentPart := Some Part3, transcripts := [], part2CueCard := None,
                  part2Topic := None, part2State := Idle, part2PreparationTimeLeft := 60,
                  part2SpeakingTimeLeft := 120, introModalContent := Some part3_intro,
                  isIntroConfirmed := False, isIntroModalOpen := True\<rparr> \<and>
          (client s0 \<longrightarrow>
             (\<exists>rest. effects (handleStartPart w' s1) =
                effects s1 @
                  Connect (PART3_INSTRUCTION_TEMPLATE (the (part2TopicForPart3 s0))) [AUDIO] # rest)))) \<and>
   (isRecording s \<and> currentPart s = Some Part2 \<and> truthy (part2Topic s) \<longrightarrow>
      part2State (stopRecording w s) = Finished \<and>
      part2TopicForPart3 (stopRecording w s) = part2Topic s)"
proof -
  define s0 where "s0 = stopCurrentSession w s"
  define s1 where "s1 = handlePartSelect w Part3 s"
  have rec0: "\<not> isRecording s0" by (simp add: s0_def stopCurrentSession_isRecording)
  have a: "s1 = s0\<lparr>currentPart := Some Part3, transcripts := [part3_refusal], part2CueCard := None,
                  part2Topic := None, part2State := Idle, part2PreparationTimeLeft := 60,
                  part2SpeakingTimeLeft := 120\<rparr>"
    if "\<not> out_of_credits s0" "\<not> truthy (part2TopicForPart3 s0)"
    using that by (cases s0) (simp add: s1_def handlePartSelect_part3 s0_def [symmetric] reset_part_def)
  have b: "handleStartPart w' s1 = s1\<lparr>isIntroModalOpen := False\<rparr>"
    if "\<not> out_of_credits s0" "\<not> truthy (part2TopicForPart3 s0)"
    using that by (simp add: a [OF that] handleStartPart_part3)
  have c: "s1 = s0\<lparr>currentPart := Some Part3, transcripts := [], part2CueCard := None,
                  part2Topic := None, part2State := Idle, part2PreparationTimeLeft := 60,
                  part2SpeakingTimeLeft := 120, introModalContent := Some part3_intro,
                  isIntroConfirmed := False, isIntroModalOpen := True\<rparr>"
    if "\<not> out_of_credits s0" "truthy (part2TopicForPart3 s0)"
    using that
    by (cases s0)
       (simp add: s1_def handlePartSelect_part3 s0_def [symmetric] reset_part_def open_intro_def)
  have d: "\<exists>rest. effects (handleStartPart w' s1) =
      effects s1 @ Connect (PART3_INSTRUCTION_TEMPLATE (the (part2TopicForPart3 s0))) [AUDIO] # rest"
    if "\<not> out_of_credits s0" "truthy (part2TopicForPart3 s0)" "client s0"
  proof -
    define s1' where "s1' = s1\<lparr>isIntroModalOpen := False\<rparr>"
    have t: "part2TopicForPart3 s1 = part2TopicForPart3 s0" "currentPart s1 = Some Part3"
      by (simp_all add: c [OF that(1,2)])
    have "\<not> out_of_credits s1'" "\<not> isRecording s1'" "client s1'"
      using that rec0 by (simp_all add: s1'_def c [OF that(1,2)] out_of_credits_def)
    from startRecording_effects_begin [OF this]
    obtain rest where "effects (startRecording w'
        (PART3_INSTRUCTION_TEMPLATE (the (part2TopicForPart3 s0))) [AUDIO] s1') =
        effects s1' @ Connect (PART3_INSTRUCTION_TEMPLATE (the (part2TopicForPart3 s0))) [AUDIO] # rest"
      by blast
    moreover have "handleStartPart w' s1 = startRecording w'
        (PART3_INSTRUCTION_TEMPLATE (the (part2TopicForPart3 s0))) [AUDIO] s1'"
      using that(2) by (simp add: handleStartPart_part3 [OF t(2)] t(1) s1'_def)
    moreover have "effects s1' = effects s1" by (simp add: s1'_def)
    ultimately show ?thesis by simp
  qed
  have e: "part2State (stopRecording w s) = Finished \<and>
      part2TopicForPart3 (stopRecording w s) = part2Topic s"
    if "isRecording s" "currentPart s = Some Part2" "truthy (part2Topic s)"
    using that by (simp add: stopRecording_fields)
  show ?thesis
    unfolding Let_def s0_def [symmetric] s1_def [symmetric]
    using a b c d e by blast
qed

lemma preparing_example_idle:
  "stopCurrentSession calm_world preparing_example = preparing_example"
  by (simp add: stopCurrentSession_def preparing_example_def initial_app_def)

lemma speaking_example_facts:
  "isRecording speaking_example" "currentPart speaking_example = Some Part2"
  "part2Topic speaking_example = Some ''A memorable trip''"
  "userCredits speaking_example = Some 100" "client speaking_example"
  by (simp_all add: speaking_example_def recording_example_def initial_app_def)

lemma handlePartSelect_part3_examples:
  "\<not> out_of_credits (stopCurrentSession calm_world preparing_example) \<and>
   \<not> truthy (part2TopicForPart3 (stopCurrentSession calm_world preparing_example)) \<and>
   transcripts (handlePartSelect calm_world Part3 preparing_example) = [part3_refusal] \<and>
   isIntroModalOpen (handlePartSelect calm_world Part3 preparing_example) = False \<and>
   effects (handleStartPart calm_world (handlePartSelect calm_world Part3 preparing_example)) = [] \<and>
   isRecording speaking_example \<and> currentPart speaking_example = Some Part2 \<and>
   truthy (part2Topic speaking_example) \<and>
   part2State (stopRecording calm_world speaking_example) = Finished \<and>
   part2TopicForPart3 (stopRecording calm_world speaking_example) = Some ''A memorable trip'' \<and>
   \<not> out_of_credits (stopCurrentSession calm_world speaking_example) \<and>
   truthy (part2TopicForPart3 (stopCurrentSession calm_world speaking_example)) \<and>
   client (stopCurrentSession calm_world speaking_example) \<and>
   isIntroModalOpen (handlePartSelect calm_world Part3 speaking_example) \<and>
   currentPart (handlePartSelect calm_world Part3 speaking_example) = Some Part3 \<and>
   (\<exists>rest. effects (handleStartPart calm_world (handlePartSelect calm_world Part3 speaking_example)) =
      effects (handlePartSelect calm_world Part3 speaking_example) @
        Connect (PART3_INSTRUCTION_TEMPLATE ''A memorable trip'') [AUDIO] # rest)"
proof -
  note p = handlePartSelect_part3_outcomes [of calm_world preparing_example calm_world, unfolded Let_def]
  note q = handlePartSelect_part3_outcomes [of calm_world speaking_example calm_world, unfolded Let_def]
  have p1: "\<not> out_of_credits (stopCurrentSession calm_world preparing_example)"
    and p2: "\<not> truthy (part2TopicForPart3 (stopCurrentSession calm_world preparing_example))"
    by (simp_all add: preparing_example_idle)
       (simp_all add: preparing_example_def initial_app_def out_of_credits_def truthy_def)
  from p p1 p2 have pa: "handlePartSelect calm_world Part3 preparing_example =
      (stopCurrentSession calm_world preparing_example)
        \<lparr>currentPart := Some Part3, transcripts := [part3_refusal], part2CueCard := None,
         part2Topic := None, part2State := Idle, part2PreparationTimeLeft := 60,
         part2SpeakingTimeLeft := 120\<rparr>"
    and pb: "handleStartPart calm_world (handlePartSelect calm_world Part3 preparing_example) =
      (handlePartSelect calm_world Part3 preparing_example)\<lparr>isIntroModalOpen := False\<rparr>"
    by blast+
  have pc: "transcripts (handlePartSelect calm_world Part3 preparing_example) = [part3_refusal]"
    "isIntroModalOpen (handlePartSelect calm_world Part3 preparing_example) = False"
    "effects (handleStartPart calm_world (handlePartSelect calm_world Part3 preparing_example)) = []"
    by (simp_all add: pb) (simp_all add: pa preparing_example_idle, simp_all add: preparing_example_def initial_app_def)
  have s1: "isRecording speaking_example \<and> currentPart speaking_example = Some Part2 \<and>
      truthy (part2Topic speaking_example)"
    by (simp add: speaking_example_facts truthy_def)
  with q have qa: "part2State (stopRecording calm_world speaking_example) = Finished"
    "part2TopicForPart3 (stopRecording calm_world speaking_example) = part2Topic speaking_example"
    by blast+
  have s0: "stopCurrentSession calm_world speaking_example = stopRecording calm_world speaking_example"
    by (simp add: stopCurrentSession_def speaking_example_facts)
  have g: "isRecording speaking_example \<or> mediaStream speaking_example \<noteq> None
      \<or> inputAudioContext speaking_example"
    by (simp add: speaking_example_facts)
  have q1: "\<not> out_of_credits (stopCurrentSession calm_world speaking_example)"
    and q2: "truthy (part2TopicForPart3 (stopCurrentSession calm_world speaking_example))"
    and q3: "client (stopCurrentSession calm_world speaking_example)"
    by (simp_all add: s0 qa out_of_credits_def stopRecording_fields [OF g]
        speaking_example_facts truthy_def)
  from q q1 q2 have qb: "handlePartSelect calm_world Part3 speaking_example =
      (stopCurrentSession calm_world speaking_example)
        \<lparr>currentPart := Some Part3, transcripts := [], part2CueCard := None,
         part2Topic := None, part2State := Idle, part2PreparationTimeLeft := 60,
         part2SpeakingTimeLeft := 120, introModalContent := Some part3_intro,
         isIntroConfirmed := False, isIntroModalOpen := True\<rparr>"
    by blast
  from q q1 q2 q3 have qc: "\<exists>rest.
      effects (handleStartPart calm_world (handlePartSelect calm_world Part3 speaking_example)) =
        effects (handlePartSelect calm_world Part3 speaking_example) @
          Connect (PART3_INSTRUCTION_TEMPLATE
            (the (part2TopicForPart3 (stopCurrentSession calm_world speaking_example)))) [AUDIO] # rest"
    by blast
  have t: "the (part2TopicForPart3 (stopCurrentSession calm_world speaking_example)) =
      ''A memorable trip''"
    by (simp add: s0 qa speaking_example_facts)
  have qd: "isIntroModalOpen (handlePartSelect calm_world Part3 speaking_example)"
    "currentPart (handlePartSelect calm_world Part3 speaking_example) = Some Part3"
    by (simp_all add: qb)
  show ?thesis
    using p1 p2 pc s1 qa q1 q2 q3 qd qc [unfolded t]
    by (simp add: speaking_example_facts)
qed

text \<open>The preparation timer only counts while there is more than a second left.\<close>

lemma preparation_ticks_count:
  "int n < part2PreparationTimeLeft s \<Longrightarrow>
     preparation_ticks n w s = s\<lparr>part2PreparationTimeLeft := part2PreparationTimeLeft s - int n\<rparr>"
proof (induction n)
  case 0
  show ?case by simp
next
  case (Suc n)
  then have "preparation_ticks n w s =
      s\<lparr>part2PreparationTimeLeft := part2PreparationTimeLeft s - int n\<rparr>"
    by simp
  with Suc.prems show ?case
    by (simp add: preparation_tick_def Let_def algebra_simps)
qed

lemma refused_example:
  "handlePartSelect calm_world Part3 preparing_example =
     preparing_example
       \<lparr>currentPart := Some Part3, transcripts := [part3_refusal], part2CueCard := None,
        part2Topic := None, part2State := Idle, part2PreparationTimeLeft := 60,
        part2SpeakingTimeLeft := 120\<rparr>"
  by (simp add: handlePartSelect_part3 stopCurrentSession_def preparing_example_def
      initial_app_def out_of_credits_def truthy_def reset_part_def)

lemma refused_example_minute:
  "preparation_ticks 60 calm_world (handlePartSelect calm_world Part3 preparing_example) =
     preparing_example
       \<lparr>currentPart := Some Part3, transcripts := [], part2CueCard := None,
        part2Topic := None, part2State := Speaking, part2PreparationTimeLeft := 0,
        part2SpeakingTimeLeft := 120, part2TimerInterval := Some (Timer 12),
        currentSessionId := Some ''3f2a'', session := Some 7, mediaStream := Some 4,
        sourceNode := True, scriptProcessorNode := True, isRecording := True,
        creditUsageInterval := Some (Timer 11),
        effects := [ClearInterval (Timer 12), Connect PART2_INSTRUCTION [AUDIO], ResumeInput,
                    GetUserMedia, CaptureConnect, SetInterval (Timer 11), SetInterval (Timer 12)]\<rparr>"
proof -
  define r where "r = handlePartSelect calm_world Part3 preparing_example"
  have r_eq: "r = preparing_example
       \<lparr>currentPart := Some Part3, transcripts := [part3_refusal], part2CueCard := None,
        part2Topic := None, part2State := Idle, part2PreparationTimeLeft := 60,
        part2SpeakingTimeLeft := 120\<rparr>"
    by (simp only: r_def refused_example)
  have world: "connected calm_world = Some 7" "microphone calm_world = Some 4"
    "uuid calm_world = ''3f2a''" "credit_timer calm_world = Timer 11"
    "part_timer calm_world = Timer 12"
    by (simp_all add: calm_world_def)
  have left: "part2PreparationTimeLeft r = 60" "part2TimerInterval r = Some (Timer 12)"
    "effects r = []"
    by (simp_all add: r_def refused_example) (simp_all add: preparing_example_def initial_app_def)
  have "(60::nat) = Suc 59" by simp
  then have "preparation_ticks 60 calm_world r =
      preparation_tick calm_world (preparation_ticks 59 calm_world r)"
    by (simp only: preparation_ticks.simps)
  also have "preparation_ticks 59 calm_world r = r\<lparr>part2PreparationTimeLeft := 1\<rparr>"
    using preparation_ticks_count [of 59 r calm_world] by (simp add: left)
  also have "preparation_tick calm_world (r\<lparr>part2PreparationTimeLeft := 1\<rparr>) =
      startPart2SpeakingSession calm_world
        (r\<lparr>part2PreparationTimeLeft := 0, part2TimerInterval := None,
           effects := [ClearInterval (Timer 12)]\<rparr>)"
    by (simp add: preparation_tick_def Let_def clear_part_timer_eq left)
  also have "\<dots> =
     preparing_example
       \<lparr>currentPart := Some Part3, transcripts := [], part2CueCard := None,
        part2Topic := None, part2State := Speaking, part2PreparationTimeLeft := 0,
        part2SpeakingTimeLeft := 120, part2TimerInterval := Some (Timer 12),
        currentSessionId := Some ''3f2a'', session := Some 7, mediaStream := Some 4,
        sourceNode := True, scriptProcessorNode := True, isRecording := True,
        creditUsageInterval := Some (Timer 11),
        effects := [ClearInterval (Timer 12), Connect PART2_INSTRUCTION [AUDIO], ResumeInput,
                    GetUserMedia, CaptureConnect, SetInterval (Timer 11), SetInterval (Timer 12)]\<rparr>"
    unfolding startPart2SpeakingSession_def Let_def
    by (subst startRecording_success [where x = 7 and mm = 4])
       (simp_all add: r_eq preparing_example_def initial_app_def out_of_credits_def world emit_def)
  finally show ?thesis unfolding r_def .
qed

lemma broke_example_refused:
  "handlePartSelect calm_world Part3 broke_example = broke_example\<lparr>isOutOfCreditsModalOpen := True\<rparr>"
  by (simp add: handlePartSelect_part3 stopCurrentSession_def broke_example_def
      preparing_example_def initial_app_def out_of_credits_def)

text \<open>
  Claim C5 does not hold of the code. During the preparation of Part 2, with credits left
  and no topic carried forward, selecting Part 3 is refused with the examiner's line, but
  the conversation state does not stay as it was: \<open>handlePartSelect\<close> assigns the part and
  resets the working state of Part 2 (1650-1656) before its \<open>switch\<close> reaches the check
  (1683). Part 3 is now the current part, the state, the topic and the cue card of Part 2
  are gone, and the preparation timer is still armed: sixty ticks later it starts the
  recording of Part 2, with the instruction of Part 2, while Part 3 is the current part.
  The refusal for want of credits in the same method (1645-1648) returns before any of
  these writes: there the state is as before but for the modal.
\<close>

theorem part3_refusal_resets_part2:
  "\<not> truthy (part2TopicForPart3 preparing_example) \<and>
   transcripts (handlePartSelect calm_world Part3 preparing_example) = [part3_refusal] \<and>
   handlePartSelect calm_world Part3 preparing_example
     \<noteq> preparing_example\<lparr>transcripts := [part3_refusal]\<rparr> \<and>
   currentPart preparing_example = Some Part2 \<and>
   currentPart (handlePartSelect calm_world Part3 preparing_example) = Some Part3 \<and>
   part2State preparing_example = Preparing \<and>
   part2State (handlePartSelect calm_world Part3 preparing_example) = Idle \<and>
   part2Topic preparing_example = Some ''A memorable trip'' \<and>
   part2Topic (handlePartSelect calm_world Part3 preparing_example) = None \<and>
   part2CueCard (handlePartSelect calm_world Part3 preparing_example) = None \<and>
   part2TimerInterval (handlePartSelect calm_world Part3 preparing_example) = Some (Timer 12) \<and>
   isRecording
     (preparation_ticks 60 calm_world (handlePartSelect calm_world Part3 preparing_example)) \<and>
   currentPart
     (preparation_ticks 60 calm_world (handlePartSelect calm_world Part3 preparing_example)) =
     Some Part3 \<and>
   part2State
     (preparation_ticks 60 calm_world (handlePartSelect calm_world Part3 preparing_example)) =
     Speaking \<and>
   effects
     (preparation_ticks 60 calm_world (handlePartSelect calm_world Part3 preparing_example)) =
     [ClearInterval (Timer 12), Connect PART2_INSTRUCTION [AUDIO], ResumeInput, GetUserMedia,
      CaptureConnect, SetInterval (Timer 11), SetInterval (Timer 12)] \<and>
   handlePartSelect calm_world Part3 broke_example =
     broke_example\<lparr>isOutOfCreditsModalOpen := True\<rparr>"
proof -
  have "part2State (handlePartSelect calm_world Part3 preparing_example) = Idle"
    by (simp add: refused_example)
  moreover have "part2State (preparing_example\<lparr>transcripts := [part3_refusal]\<rparr>) = Preparing"
    by (simp add: preparing_example_def)
  ultimately have "handlePartSelect calm_world Part3 preparing_example
     \<noteq> preparing_example\<lparr>transcripts := [part3_refusal]\<rparr>"
    by (metis part2_state.distinct(3))
  moreover have "handlePartSelect calm_world Part3 broke_example =
     broke_example\<lparr>isOutOfCreditsModalOpen := True\<rparr>"
    by (rule broke_example_refused)
  ultimately show ?thesis
    by (simp add: refused_example_minute)
       (simp add: refused_example, simp add: preparing_example_def initial_app_def truthy_def)
qed

subsection \<open>Stopping twice\<close>

lemma save_effects_stopRecording:
  assumes "isRecording s \<or> mediaStream s \<noteq> None \<or> inputAudioContext s"
  shows "save_effects w' (stopRecording w s) = save_effects w' s"
  by (simp add: save_effects_def stopRecording_fields [OF assms])

lemma stopRecording_twice_effects:
  assumes "inputAudioContext s"
  shows "effects (stopRecording w' (stopRecording w s)) =
     effects (stopRecording w s) @ save_effects w' s
       @ (if transcripts s \<noteq> [] then [ProcessMissingFeedback] else [])"
proof -
  have g: "isRecording s \<or> mediaStream s \<noteq> None \<or> inputAudioContext s"
    using assms by simp
  have g': "isRecording (stopRecording w s) \<or> mediaStream (stopRecording w s) \<noteq> None
      \<or> inputAudioContext (stopRecording w s)"
    using assms by (simp add: stopRecording_fields [OF g])
  show ?thesis
    by (simp add: stopRecording_effects [OF g'] save_effects_stopRecording [OF g]
        stopRecording_fields [OF g])
qed

lemma stopRecording_index_twice_effects:
  assumes "inputAudioContext s"
  shows "effects (stopRecording_index w' (stopRecording_index w s)) =
     effects (stopRecording_index w s) @ insert_effects s @ insert_error_log w' s"
proof -
  have g: "isRecording s \<or> mediaStream s \<noteq> None \<or> inputAudioContext s"
    using assms by simp
  have g': "isRecording (stopRecording_index w s) \<or> mediaStream (stopRecording_index w s) \<noteq> None
      \<or> inputAudioContext (stopRecording_index w s)"
    using assms by (simp add: stopRecording_index_fields [OF g])
  show ?thesis
    by (simp add: stopRecording_index_effects [OF g'] stopRecording_index_fields [OF g]
        insert_effects_def insert_error_log_def)
qed

lemma save_effects_recording_example:
  "save_effects calm_world recording_example =
     [InsertTranscripts ''user-1'' ''3f2a'' [\<lparr>speaker = Candidate, text' = ''Hello''\<rparr>]]"
  "insert_effects recording_example =
     [InsertTranscripts ''user-1'' ''3f2a'' [\<lparr>speaker = Candidate, text' = ''Hello''\<rparr>]]"
  "insert_error_log calm_world recording_example = []"
  by (simp_all add: save_effects_def insert_effects_def insert_error_log_def
      recording_example_facts truthy_def calm_world_def)

text \<open>
  Claim C6 does not hold of the code. The guard of \<open>stopRecording\<close> asks for
  \<open>!this.inputAudioContext\<close>, which is never the case, so a second call runs the body
  again: the session, the capture nodes and the stream are gone and are not touched again,
  but the transcript is still there and is inserted a second time. Here: the recording
  example, stopped once and stopped twice, in both revisions.
\<close>

theorem stopRecording_twice_saves_twice:
  "filter is_insert (effects (stopRecording calm_world recording_example)) =
     [InsertTranscripts ''user-1'' ''3f2a'' [\<lparr>speaker = Candidate, text' = ''Hello''\<rparr>]] \<and>
   filter is_insert
     (effects (stopRecording calm_world (stopRecording calm_world recording_example))) =
     [InsertTranscripts ''user-1'' ''3f2a'' [\<lparr>speaker = Candidate, text' = ''Hello''\<rparr>],
      InsertTranscripts ''user-1'' ''3f2a'' [\<lparr>speaker = Candidate, text' = ''Hello''\<rparr>]] \<and>
   filter is_insert (effects (stopRecording_index calm_world recording_example)) =
     [InsertTranscripts ''user-1'' ''3f2a'' [\<lparr>speaker = Candidate, text' = ''Hello''\<rparr>]] \<and>
   filter is_insert
     (effects (stopRecording_index calm_world (stopRecording_index calm_world recording_example))) =
     [InsertTranscripts ''user-1'' ''3f2a'' [\<lparr>speaker = Candidate, text' = ''Hello''\<rparr>],
      InsertTranscripts ''user-1'' ''3f2a'' [\<lparr>speaker = Candidate, text' = ''Hello''\<rparr>]]"
proof -
  have g: "isRecording recording_example \<or> mediaStream recording_example \<noteq> None
      \<or> inputAudioContext recording_example"
    by (simp add: recording_example_facts)
  have one: "filter is_insert (effects (stopRecording calm_world recording_example)) =
      [InsertTranscripts ''user-1'' ''3f2a'' [\<lparr>speaker = Candidate, text' = ''Hello''\<rparr>]]"
    by (simp add: stopRecording_effects [OF g] recording_example_facts
        save_effects_recording_example)
  have one': "filter is_insert (effects (stopRecording_index calm_world recording_example)) =
      [InsertTranscripts ''user-1'' ''3f2a'' [\<lparr>speaker = Candidate, text' = ''Hello''\<rparr>]]"
    by (simp add: stopRecording_index_effects [OF g] recording_example_facts
        save_effects_recording_example)
  show ?thesis
    by (simp add: stopRecording_twice_effects stopRecording_index_twice_effects
        recording_example_facts one one' save_effects_recording_example)
qed

subsection \<open>The capture callback\<close>

lemma onaudioprocess_drops:
  "\<not> isRecording s \<or> session s = None \<Longrightarrow> onaudioprocess pcmData s = Inr s"
  by (auto simp: onaudioprocess_def)

text \<open>
  Claim C7 holds of the callback that checks the session (the lemma above) and fails in the
  first revision of \<open>part_001\<close>: recording without a session object, the callback calls
  \<open>sendRealtimeInput\<close> on \<open>undefined\<close> and throws.
\<close>

theorem onaudioprocess_unguarded_throws:
  "onaudioprocess_unguarded pcmData (s\<lparr>isRecording := True, session := None\<rparr>) = Inl TypeError"
  by (simp add: onaudioprocess_unguarded_def)

section \<open>Properties of the PCM codec\<close>

lemma index_of_nth: "distinct xs \<Longrightarrow> i < length xs \<Longrightarrow> index_of (xs ! i) xs = Some i"
proof (induction xs arbitrary: i)
  case Nil
  then show ?case by simp
next
  case (Cons x xs)
  show ?case
  proof (cases i)
    case 0
    then show ?thesis by simp
  next
    case (Suc k)
    with Cons.prems have "xs ! k \<in> set xs" "x \<notin> set xs" by auto
    then have "xs ! k \<noteq> x" by auto
    with Cons Suc show ?thesis by auto
  qed
qed

lemma length_alphabet: "length alphabet = 64"
  by (simp add: alphabet_def)

lemma distinct_alphabet: "distinct alphabet"
  by (simp add: alphabet_def)

lemma pad_not_in_alphabet: "CHR ''='' \<notin> set alphabet"
  by (simp add: alphabet_def)

lemma sextet_mod: "v < 64 \<Longrightarrow> v mod 64 = (v::nat)"
  by simp

lemma char_sextet_char: "v < 64 \<Longrightarrow> char_sextet (sextet_char v) = Some v"
  by (simp add: char_sextet_def sextet_char_def index_of_nth distinct_alphabet length_alphabet)

lemma sextet_char_not_pad: "sextet_char v \<noteq> CHR ''=''"
proof -
  have "alphabet ! (v mod 64) \<in> set alphabet"
    by (rule nth_mem) (simp add: length_alphabet)
  with pad_not_in_alphabet show ?thesis
    by (auto simp: sextet_char_def)
qed

lemma sextet_less: "sextet k n < 64"
  by (simp add: sextet_def)

lemma ungroup_sextets:
  "n < 16777216 \<Longrightarrow> ungroup24 (sextet 3 n) (sextet 2 n) (sextet 1 n) (sextet 0 n) = n"
proof -
  assume n: "n < 16777216"
  have d2: "n div 4096 = n div 64 div 64" by (simp add: div_mult2_eq [symmetric])
  have d3: "n div 262144 = n div 64 div 64 div 64" by (simp add: div_mult2_eq [symmetric])
  have "n div 262144 < 64" using n by simp
  then have top: "n div 64 div 64 div 64 mod 64 = n div 64 div 64 div 64" by (simp add: d3)
  show ?thesis
    by (simp add: ungroup24_def sextet_def d2 d3 top)
qed

lemma unat_byte: "unat (a :: byte) < 256"
  using unsigned_less [of a, where 'a = nat] by simp

lemma unat_int16: "unat (w :: int16) < 65536"
  using unsigned_less [of w, where 'a = nat] by simp

lemma group24_less: "group24 a b c < 16777216"
proof -
  have "unat a < 256" "unat b < 256" "unat c < 256"
    by (rule unat_byte)+
  then show ?thesis by (simp add: group24_def)
qed

lemma octets_group24:
  "octet 2 (group24 a b c) = a" "octet 1 (group24 a b c) = b" "octet 0 (group24 a b c) = c"
proof -
  have l: "unat a < 256" "unat b < 256" "unat c < 256"
    by (rule unat_byte)+
  have d: "group24 a b c div 256 = unat a * 256 + unat b"
    using l by (simp add: group24_def)
  have "group24 a b c div 65536 = group24 a b c div 256 div 256"
    by (simp add: div_mult2_eq [symmetric])
  then have d2: "group24 a b c div 65536 = unat a"
    using l by (simp add: d)
  show "octet 2 (group24 a b c) = a" using l by (simp add: octet_def d2)
  show "octet 1 (group24 a b c) = b" using l by (simp add: octet_def d)
  have "group24 a b c mod 256 = unat c mod 256"
    unfolding group24_def by (rule mod_mult_self3)
  then have m: "group24 a b c mod 256 = unat c" using l by simp
  show "octet 0 (group24 a b c) = c" by (simp add: octet_def m)
qed

lemma sextet0_two: "sextet 0 (group24 a b 0) = 0"
proof -
  have "group24 a b 0 = 64 * ((unat a * 256 + unat b) * 4)" by (simp add: group24_def)
  then show ?thesis by (simp add: sextet_def)
qed

lemma sextet1_one: "sextet (Suc 0) (group24 a 0 0) = 0"
proof -
  have "group24 a 0 0 = 64 * (64 * (unat a * 16))" by (simp add: group24_def)
  then show ?thesis by (simp add: sextet_def)
qed

lemma sextet0_one: "sextet 0 (group24 a 0 0) = 0"
  by (rule sextet0_two)

lemma decode_quad:
  "char_sextet (sextet_char (sextet k n)) = Some (sextet k n)"
  by (rule char_sextet_char) (rule sextet_less)

lemma decodeBase64_encode: "decodeBase64 (encode_b64 bs) = Inr bs"
proof (induction bs rule: encode_b64.induct)
  case 1
  show ?case by simp
next
  case (2 a)
  have "ungroup24 (sextet 3 (group24 a 0 0)) (sextet 2 (group24 a 0 0)) 0 0 = group24 a 0 0"
    using ungroup_sextets [OF group24_less, of a 0 0] by (simp add: sextet1_one sextet0_one)
  then show ?case
    by (simp add: Let_def decode_quad octets_group24 del: One_nat_def)
next
  case (3 a b)
  have "ungroup24 (sextet 3 (group24 a b 0)) (sextet 2 (group24 a b 0)) (sextet 1 (group24 a b 0)) 0
      = group24 a b 0"
    using ungroup_sextets [OF group24_less, of a b 0] by (simp add: sextet0_two)
  then show ?case
    by (simp add: Let_def decode_quad octets_group24 sextet_char_not_pad del: One_nat_def)
next
  case (4 a b c bs)
  have "ungroup24 (sextet 3 (group24 a b c)) (sextet 2 (group24 a b c)) (sextet 1 (group24 a b c))
      (sextet 0 (group24 a b c)) = group24 a b c"
    by (rule ungroup_sextets [OF group24_less])
  with 4 show ?case
    by (simp add: Let_def decode_quad octets_group24 sextet_char_not_pad del: One_nat_def)
qed

lemma from_le_bytes:
  "from_le (of_nat (unat w mod 256)) (of_nat (unat w div 256)) = w"
proof -
  have "unat w div 256 < 256" using unat_int16 [of w] by simp
  then have "unat (of_nat (unat w div 256) :: byte) = unat w div 256"
    by (simp add: unat_of_nat)
  moreover have "unat (of_nat (unat w mod 256) :: byte) = unat w mod 256"
    by (simp add: unat_of_nat)
  ultimately show ?thesis by (simp add: from_le_def)
qed

lemma unpack_pack: "unpack (pack ws) = ws"
  by (induction ws) (simp_all add: pack_def le_bytes_def from_le_bytes)

lemma length_pack: "length (pack ws) = 2 * length ws"
  by (induction ws) (simp_all add: pack_def le_bytes_def)

lemma decodeAudioData_pack:
  "decodeAudioData (pack ws) rate 1 =
     Inr \<lparr>sampleRate = rate, channels = [map (\<lambda>w. real_of_int (sint w) / 32768) ws]\<rparr>"
proof -
  have "map (\<lambda>i. map (\<lambda>w. real_of_int (sint w) / 32768) ws ! i) [0..<length ws] =
      map (\<lambda>w. real_of_int (sint w) / 32768) ws"
    by (rule nth_equalityI) simp_all
  then show ?thesis
    by (simp add: decodeAudioData_def length_pack unpack_pack Let_def)
qed

lemma round_trip_eq:
  "round_trip mime rate samples =
     Inr \<lparr>sampleRate = rate,
          channels = [map (\<lambda>x. real_of_int (sint (to_int16 x)) / 32768) samples]\<rparr>"
  by (simp add: round_trip_def encodeFrame_def decodeBase64_encode decodeAudioData_pack comp_def
      del: One_nat_def)

lemma trunc_near: "\<bar>real_of_int (trunc y) - y\<bar> < 1"
  by (simp add: trunc_def) linarith

lemma sint_to_int16:
  "sint (to_int16 x) = max (- 32768) (min 32767 (trunc (x * 32768)))"
proof -
  define k where "k = max (- 32768) (min 32767 (trunc (x * 32768)))"
  have "- (2 ^ 15) \<le> k" "k < 2 ^ 15" by (simp_all add: k_def)
  then have "signed_take_bit 15 k = k" by (rule signed_take_bit_int_eq_self)
  then show ?thesis
    by (simp add: to_int16_def k_def [symmetric] signed_of_int)
qed

lemma quantization:
  assumes "- 1 \<le> x" and "x \<le> 1"
  shows "\<bar>real_of_int (sint (to_int16 x)) / 32768 - x\<bar> \<le> 1 / 32768"
proof -
  define y where "y = x * 32768"
  define t where "t = trunc y"
  have y: "- 32768 \<le> y" "y \<le> 32768" using assms by (simp_all add: y_def)
  have near: "\<bar>real_of_int t - y\<bar> < 1" unfolding t_def by (rule trunc_near)
  have lo: "- 32768 \<le> t"
  proof -
    have "real_of_int t > - 32769" using near y by linarith
    then show ?thesis by linarith
  qed
  have hi: "t \<le> 32768"
  proof -
    have "real_of_int t < 32769" using near y by linarith
    then show ?thesis by linarith
  qed
  define k where "k = max (- 32768) (min 32767 t)"
  have "\<bar>real_of_int k - y\<bar> \<le> 1"
  proof (cases "t = 32768")
    case True
    then have "k = 32767" by (simp add: k_def)
    moreover have "y > 32767" using near True by linarith
    ultimately show ?thesis using y by simp
  next
    case False
    with lo hi have "k = t" by (simp add: k_def)
    with near show ?thesis by simp
  qed
  then have "\<bar>(real_of_int k - y) / 32768\<bar> \<le> 1 / 32768"
    by simp
  moreover have "real_of_int (sint (to_int16 x)) / 32768 - x = (real_of_int k - y) / 32768"
    unfolding sint_to_int16 k_def t_def y_def by (simp add: diff_divide_distrib)
  ultimately show ?thesis by (simp only:)
qed

text \<open>
  Claim C4, on the codec as the specification describes it. For samples in \<open>[-1, 1]\<close>,
  encoding a frame, decoding its payload from base64 and decoding the bytes as one channel
  of 16-bit PCM succeeds and gives as many samples as went in, each within \<open>1/32768\<close> of
  the original.
\<close>

theorem pcm_round_trip:
  assumes "list_all (\<lambda>x. - 1 \<le> x \<and> x \<le> 1) samples"
  shows "\<exists>ys. round_trip mime rate samples = Inr \<lparr>sampleRate = rate, channels = [ys]\<rparr> \<and>
           length ys = length samples \<and>
           (\<forall>i. i < length samples \<longrightarrow> \<bar>ys ! i - samples ! i\<bar> \<le> 1 / 32768)"
proof (intro exI conjI allI impI)
  show "round_trip mime rate samples =
      Inr \<lparr>sampleRate = rate,
           channels = [map (\<lambda>x. real_of_int (sint (to_int16 x)) / 32768) samples]\<rparr>"
    by (rule round_trip_eq)
  show "length (map (\<lambda>x. real_of_int (sint (to_int16 x)) / 32768) samples) = length samples"
    by simp
  fix i assume i: "i < length samples"
  with assms have "- 1 \<le> samples ! i" and "samples ! i \<le> 1"
    by (simp_all add: list_all_length)
  then have "\<bar>real_of_int (sint (to_int16 (samples ! i))) / 32768 - samples ! i\<bar> \<le> 1 / 32768"
    by (rule quantization)
  then show "\<bar>map (\<lambda>x. real_of_int (sint (to_int16 x)) / 32768) samples ! i - samples ! i\<bar>
      \<le> 1 / 32768"
    by (simp only: nth_map [OF i])
qed

theorem pcm_round_trip_witness:
  "list_all (\<lambda>x. - 1 \<le> x \<and> x \<le> 1) [1 / 2, - 1, 1 :: real] \<and>
   (\<exists>ys. round_trip ''audio/pcm'' 24000 [1 / 2, - 1, 1] =
            Inr \<lparr>sampleRate = 24000, channels = [ys]\<rparr> \<and>
          length ys = 3 \<and> \<bar>ys ! 2 - 1\<bar> \<le> 1 / 32768)"
proof -
  have h: "list_all (\<lambda>x. - 1 \<le> x \<and> x \<le> 1) [1 / 2, - 1, 1 :: real]"
    by simp
  from pcm_round_trip [OF h, of "''audio/pcm''" 24000]
  obtain ys where r: "round_trip ''audio/pcm'' 24000 [1 / 2, - 1, 1] =
      Inr \<lparr>sampleRate = 24000, channels = [ys]\<rparr>"
    and l: "length ys = length [1 / 2, - 1, 1 :: real]"
    and q: "\<forall>i. i < length [1 / 2, - 1, 1 :: real] \<longrightarrow>
      \<bar>ys ! i - [1 / 2, - 1, 1] ! i\<bar> \<le> 1 / 32768"
    by blast
  from q have "2 < length [1 / 2, - 1, 1 :: real] \<longrightarrow>
      \<bar>ys ! 2 - [1 / 2, - 1, 1] ! 2\<bar> \<le> 1 / 32768"
    by blast
  then have "\<bar>ys ! 2 - 1\<bar> \<le> 1 / 32768"
    by simp
  with r l h show ?thesis
    by auto
qed

end
